theory Spec2Isabelle
  imports Complex_Main "HOL-Library.Log_Nat"
begin

text \<open>
  A model of the rating platform: the routes of \<^verbatim>\<open>backend/backend/server.js\<close> over the
  tables of \<^verbatim>\<open>backend/db/schema.sql\<close>, and the averages that the dashboards of the
  React application compute. A route is a function from the request and the database to
  the response and the database it leaves.
\<close>

section \<open>JavaScript values\<close>

text \<open>
  The request bodies are JSON objects read by \<^verbatim>\<open>express.json()\<close>. A field of a body is
  modelled as a primitive JavaScript value: \<open>JUndefined\<close> for a field that is absent,
  \<open>JNull\<close>, a boolean, a number or a string. A number is the finite double that
  \<^verbatim>\<open>JSON.parse\<close> produced, held as the rational it denotes (so there is no NaN and no
  negative zero among the inputs); \<^verbatim>\<open>Number(...)\<close> can still produce NaN, written
  \<open>None\<close>. Arrays and objects as field values are outside the model. A \<open>char\<close> of a
  string stands for one UTF-16 code unit below 256, so \<open>length\<close> is the \<^verbatim>\<open>.length\<close> of
  such a string.
\<close>

datatype jsval = JUndefined | JNull | JBool bool | JNum rat | JStr string

text \<open>\<^verbatim>\<open>!v\<close>: the values that are falsy.\<close>

fun falsy :: "jsval \<Rightarrow> bool" where
  "falsy JUndefined = True"
| "falsy JNull = True"
| "falsy (JBool b) = (\<not> b)"
| "falsy (JNum q) = (q = 0)"
| "falsy (JStr s) = (s = [])"

text \<open>
  \<^verbatim>\<open>v.length\<close>: the length of a string, \<^verbatim>\<open>undefined\<close> (\<open>None\<close>) on a number or a
  boolean. On \<^verbatim>\<open>undefined\<close> and \<^verbatim>\<open>null\<close> the property read throws; every read in the
  source stands behind \<^verbatim>\<open>!v ||\<close>, which is true for both.
\<close>

fun js_length :: "jsval \<Rightarrow> nat option" where
  "js_length (JStr s) = Some (length s)"
| "js_length _ = None"

text \<open>\<^verbatim>\<open>v.length < n\<close>, \<^verbatim>\<open>v.length > n\<close>, \<^verbatim>\<open>v.length === n\<close>: a comparison with
  \<^verbatim>\<open>undefined\<close> is false.\<close>

definition length_lt :: "jsval \<Rightarrow> nat \<Rightarrow> bool" where
  "length_lt v n = (case js_length v of None \<Rightarrow> False | Some k \<Rightarrow> k < n)"

definition length_gt :: "jsval \<Rightarrow> nat \<Rightarrow> bool" where
  "length_gt v n = (case js_length v of None \<Rightarrow> False | Some k \<Rightarrow> k > n)"

definition length_eq :: "jsval \<Rightarrow> nat \<Rightarrow> bool" where
  "length_eq v n = (case js_length v of None \<Rightarrow> False | Some k \<Rightarrow> k = n)"

text \<open>
  \<^verbatim>\<open>a === b\<close> on primitive values: the same type and the same value. With exact numbers
  and no NaN this is equality of the two \<open>jsval\<close>s; a number is never strictly equal to
  a string.
\<close>

definition strict_eq :: "jsval \<Rightarrow> jsval \<Rightarrow> bool" where
  "strict_eq a b = (a = b)"

subsection \<open>The runtime and the libraries\<close>

text \<open>
  What the server calls and the repository does not define is a parameter of the model:
  the token library (\<^verbatim>\<open>jwt.sign\<close>, \<^verbatim>\<open>jwt.verify\<close>), the password hash
  (\<^verbatim>\<open>bcrypt.hash\<close>, \<^verbatim>\<open>bcrypt.compare\<close>; \<open>None\<close> when the call throws), the conversions
  of the language (\<^verbatim>\<open>Number\<close> of a string, \<^verbatim>\<open>String\<close> of a number, \<^verbatim>\<open>parseInt\<close>) and the
  database's reading of an integer from the text of a parameter.
\<close>

text \<open>
  The payload of a token, \<^verbatim>\<open>{ id, email, role }\<close>, as the server signs it from a row of
  \<^verbatim>\<open>users\<close>: the id is an integer.
\<close>

record payload =
  p_id :: int
  p_email :: string
  p_role :: string

record env =
  jwt_verify :: "string \<Rightarrow> payload option"
  jwt_sign :: "payload \<Rightarrow> string"
  bcrypt_hash :: "jsval \<Rightarrow> string option"
  bcrypt_compare :: "jsval \<Rightarrow> string \<Rightarrow> bool option"
  str_to_num :: "string \<Rightarrow> rat option"
  num_to_str :: "rat \<Rightarrow> string"
  parse_int :: "string \<Rightarrow> int option"
  int4in :: "string \<Rightarrow> int option"

text \<open>
  \<^verbatim>\<open>Number(v)\<close>; \<open>None\<close> is NaN. (An infinite result, which only a string can give,
  is written \<open>None\<close> as well: the one use of \<^verbatim>\<open>Number\<close>, the rating check, refuses
  both.)
\<close>

fun to_number :: "env \<Rightarrow> jsval \<Rightarrow> rat option" where
  "to_number E JUndefined = None"
| "to_number E JNull = Some 0"
| "to_number E (JBool b) = Some (if b then 1 else 0)"
| "to_number E (JNum q) = Some q"
| "to_number E (JStr s) = str_to_num E s"

text \<open>\<^verbatim>\<open>String(v)\<close>, which a regular expression's \<^verbatim>\<open>test\<close> and a template literal apply.\<close>

fun to_string :: "env \<Rightarrow> jsval \<Rightarrow> string" where
  "to_string E JUndefined = ''undefined''"
| "to_string E JNull = ''null''"
| "to_string E (JBool b) = (if b then ''true'' else ''false'')"
| "to_string E (JNum q) = num_to_str E q"
| "to_string E (JStr s) = s"

section \<open>Validation helpers\<close>

text \<open>The character classes of the regular expressions.\<close>

definition upper_char :: "char \<Rightarrow> bool" where
  "upper_char c = (c \<in> set ''ABCDEFGHIJKLMNOPQRSTUVWXYZ'')"

definition special_char :: "char \<Rightarrow> bool" where
  "special_char c = (c \<in> set ''!@#$%^&*()'')"

text \<open>\<^verbatim>\<open>\s\<close> among the code units below 256: tab, line feed, vertical tab, form feed,
  carriage return, space and the no-break space.\<close>

definition space_char :: "char \<Rightarrow> bool" where
  "space_char c = (c \<in> set [CHR 0x09, CHR 0x0A, CHR 0x0B, CHR 0x0C, CHR 0x0D, CHR 0x20, CHR 0xA0])"

text \<open>\<^verbatim>\<open>[^\s@]\<close>\<close>

definition email_char :: "char \<Rightarrow> bool" where
  "email_char c = (\<not> space_char c \<and> c \<noteq> CHR ''@'')"

text \<open>
  \<^verbatim>\<open>/^[^\s@]+@[^\s@]+\.[^\s@]+$/\<close> on a string: a non-empty run of \<^verbatim>\<open>[^\s@]\<close>, an
  \<^verbatim>\<open>@\<close>, and a rest of \<^verbatim>\<open>[^\s@]\<close> only that has a dot which is neither its first nor its
  last character.
\<close>

definition email_regex :: "string \<Rightarrow> bool" where
  "email_regex s =
     (takeWhile email_char s \<noteq> [] \<and>
      (case dropWhile email_char s of
         [] \<Rightarrow> False
       | c # d \<Rightarrow> c = CHR ''@'' \<and> list_all email_char d \<and> CHR ''.'' \<in> set (butlast (tl d))))"

type_synonym message = string

definition validate_name :: "jsval \<Rightarrow> message option" where
  "validate_name name =
     (if falsy name \<or> length_lt name 20 then Some ''Name must be at least 20 characters.''
      else if length_gt name 60 then Some ''Name cannot exceed 60 characters.''
      else None)"

definition validate_address :: "jsval \<Rightarrow> message option" where
  "validate_address address =
     (if falsy address \<or> length_eq address 0 then Some ''Address is required.''
      else if length_gt address 400 then Some ''Address cannot exceed 400 characters.''
      else None)"

definition validate_password :: "env \<Rightarrow> jsval \<Rightarrow> message option" where
  "validate_password E password =
     (if falsy password \<or> length_lt password 8 then Some ''Password must be 8-16 characters.''
      else if length_gt password 16 then Some ''Password must be 8-16 characters.''
      else if \<not> list_ex upper_char (to_string E password)
        then Some ''Password must include at least one uppercase letter.''
      else if \<not> list_ex special_char (to_string E password)
        then Some ''Password must include at least one special character (!@#$%^&*()).''
      else None)"

definition validate_email :: "env \<Rightarrow> jsval \<Rightarrow> message option" where
  "validate_email E email =
     (if \<not> email_regex (to_string E email) then Some ''Invalid email format.'' else None)"

definition validate_rating :: "env \<Rightarrow> jsval \<Rightarrow> message option" where
  "validate_rating E rating =
     (case to_number E rating of
        None \<Rightarrow> Some ''Rating must be between 1 and 5.''
      | Some r \<Rightarrow> if r < 1 \<or> r > 5 then Some ''Rating must be between 1 and 5.'' else None)"

section \<open>The database\<close>

text \<open>
  The three tables of \<^verbatim>\<open>db/schema.sql\<close>, with the columns the server reads and writes
  (the timestamps are left out: no route returns them). A nullable text column is a
  \<open>string option\<close>.
\<close>

record user_row =
  u_id :: int
  u_name :: string
  u_email :: string
  u_password :: string
  u_address :: "string option"
  u_role :: string

record store_row =
  s_id :: int
  s_name :: string
  s_email :: string
  s_address :: "string option"
  s_owner_id :: int

record rating_row =
  r_id :: int
  r_user_id :: int
  r_store_id :: int
  r_rating :: int

record db =
  users :: "user_row list"
  stores :: "store_row list"
  ratings :: "rating_row list"

text \<open>The errors of the database that the statements of the server can meet, and their
  \<^verbatim>\<open>error.code\<close>.\<close>

datatype pg_error =
  StringTooLong | InvalidByteSequence | InvalidText | NumericOutOfRange
  | NotNullViolation | CheckViolation | UniqueViolation | ForeignKeyViolation

fun sqlstate :: "pg_error \<Rightarrow> string" where
  "sqlstate StringTooLong = ''22001''"
| "sqlstate InvalidByteSequence = ''22021''"
| "sqlstate InvalidText = ''22P02''"
| "sqlstate NumericOutOfRange = ''22003''"
| "sqlstate NotNullViolation = ''23502''"
| "sqlstate CheckViolation = ''23514''"
| "sqlstate UniqueViolation = ''23505''"
| "sqlstate ForeignKeyViolation = ''23503''"

definition and_then :: "'e + 'a \<Rightarrow> ('a \<Rightarrow> 'e + 'b) \<Rightarrow> 'e + 'b" where
  "and_then r f = (case r of Inl e \<Rightarrow> Inl e | Inr x \<Rightarrow> f x)"

text \<open>
  How a query parameter reaches the database: \<^verbatim>\<open>undefined\<close> and \<^verbatim>\<open>null\<close> as NULL
  (\<open>None\<close>), every other value as its text. The database refuses a text that holds
  the character U+0000 when it binds the parameter, before it runs the statement, with
  the code 22021. A parameter is what the database has after binding: the value, or the
  refusal. The parameters of a statement are bound in their order.
\<close>

type_synonym text_param = "pg_error + string option"

definition pg_string :: "string \<Rightarrow> text_param" where
  "pg_string s = (if CHR 0x00 \<in> set s then Inl InvalidByteSequence else Inr (Some s))"

definition pg_text :: "env \<Rightarrow> jsval \<Rightarrow> text_param" where
  "pg_text E v = (if v = JUndefined \<or> v = JNull then Inr None else pg_string (to_string E v))"

text \<open>
  A parameter of an \<^verbatim>\<open>INTEGER\<close> column. The text of an integral number is its decimal
  digits, which the database reads back when they fit the 32-bit type; the text of any
  other number has a fraction or an exponent, which the integer type refuses. The text of
  a string or a boolean is bound like every text and then read by the database's integer
  input, \<open>int4in\<close>.
\<close>

definition int4_range :: "int \<Rightarrow> bool" where
  "int4_range n = (- 2147483648 \<le> n \<and> n \<le> 2147483647)"

definition pg_int_text :: "env \<Rightarrow> string \<Rightarrow> pg_error + int" where
  "pg_int_text E s =
     and_then (pg_string s) (\<lambda>_.
       (case int4in E s of None \<Rightarrow> Inl InvalidText | Some n \<Rightarrow> Inr n))"

fun pg_int :: "env \<Rightarrow> jsval \<Rightarrow> pg_error + int option" where
  "pg_int E JUndefined = Inr None"
| "pg_int E JNull = Inr None"
| "pg_int E (JNum q) =
     (if q \<in> \<int> then (if int4_range \<lfloor>q\<rfloor> then Inr (Some \<lfloor>q\<rfloor>) else Inl NumericOutOfRange)
      else Inl InvalidText)"
| "pg_int E v = and_then (pg_int_text E (to_string E v)) (\<lambda>n. Inr (Some n))"

text \<open>
  Assignment to \<^verbatim>\<open>VARCHAR(n)\<close>: a longer value is an error unless all that exceeds \<open>n\<close>
  is spaces, which are cut off.
\<close>

definition varchar :: "nat \<Rightarrow> string option \<Rightarrow> pg_error + string option" where
  "varchar n v =
     (case v of
        None \<Rightarrow> Inr None
      | Some s \<Rightarrow>
          if length s \<le> n then Inr (Some s)
          else if list_all (\<lambda>c. c = CHR 0x20) (drop n s) then Inr (Some (take n s))
          else Inl StringTooLong)"

text \<open>
  \<^verbatim>\<open>id SERIAL PRIMARY KEY\<close>: the sequence hands out a number above every id it handed out
  before, starting at 1; the model takes the least number above the ids of the table.
\<close>

definition next_id :: "int list \<Rightarrow> int" where
  "next_id ids = fold max ids 0 + 1"

text \<open>A \<^verbatim>\<open>CHECK\<close> on the length of a nullable column holds for NULL.\<close>

definition check_address :: "string option \<Rightarrow> bool" where
  "check_address a = (case a of None \<Rightarrow> True | Some s \<Rightarrow> length s \<le> 400)"

definition check_name :: "string \<Rightarrow> bool" where
  "check_name n = (20 \<le> length n \<and> length n \<le> 60)"

text \<open>
  \<^verbatim>\<open>INSERT INTO users (name, email, password, address, role) VALUES (...) RETURNING ...\<close>.
  The database binds the five parameters, coerces the values to the column types, then
  checks \<^verbatim>\<open>NOT NULL\<close>, then the \<^verbatim>\<open>CHECK\<close> constraints, and meets the unique index on
  \<^verbatim>\<open>email\<close> when it stores the row. A statement that fails leaves the tables as they were.
\<close>

definition insert_user ::
  "db \<Rightarrow> text_param \<Rightarrow> text_param \<Rightarrow> text_param \<Rightarrow> text_param \<Rightarrow> text_param
     \<Rightarrow> pg_error + (user_row \<times> db)" where
  "insert_user D name_param email_param password_param address_param role_param =
     and_then name_param (\<lambda>name.
     and_then email_param (\<lambda>email.
     and_then password_param (\<lambda>password.
     and_then address_param (\<lambda>address.
     and_then role_param (\<lambda>role.
     and_then (varchar 60 name) (\<lambda>name'.
     and_then (varchar 255 email) (\<lambda>email'.
     and_then (varchar 255 password) (\<lambda>password'.
     and_then (varchar 20 role) (\<lambda>role'.
       (case (name', email', password', role') of
          (Some n, Some e, Some p, Some r) \<Rightarrow>
            if \<not> check_name n \<or> \<not> check_address address
               \<or> r \<notin> set [''admin'', ''user'', ''store_owner'']
              then Inl CheckViolation
            else if e \<in> set (map u_email (users D)) then Inl UniqueViolation
            else
              (let row = \<lparr>u_id = next_id (map u_id (users D)), u_name = n, u_email = e,
                          u_password = p, u_address = address, u_role = r\<rparr>
               in Inr (row, D\<lparr>users := users D @ [row]\<rparr>))
        | _ \<Rightarrow> Inl NotNullViolation))))))))))"

text \<open>
  \<^verbatim>\<open>INSERT INTO stores (name, email, address, owner_id) VALUES (...) RETURNING id\<close>: as for
  \<^verbatim>\<open>users\<close>, with the unique indexes on \<^verbatim>\<open>email\<close> and \<^verbatim>\<open>owner_id\<close> and, at the end of
  the statement, the foreign key to \<^verbatim>\<open>users(id)\<close>.
\<close>

definition insert_store ::
  "db \<Rightarrow> text_param \<Rightarrow> text_param \<Rightarrow> text_param \<Rightarrow> int \<Rightarrow> pg_error + (store_row \<times> db)" where
  "insert_store D name_param email_param address_param owner =
     and_then name_param (\<lambda>name.
     and_then email_param (\<lambda>email.
     and_then address_param (\<lambda>address.
     and_then (varchar 60 name) (\<lambda>name'.
     and_then (varchar 255 email) (\<lambda>email'.
       (case (name', email') of
          (Some n, Some e) \<Rightarrow>
            if \<not> check_name n \<or> \<not> check_address address then Inl CheckViolation
            else if e \<in> set (map s_email (stores D)) \<or> owner \<in> set (map s_owner_id (stores D))
              then Inl UniqueViolation
            else if owner \<notin> set (map u_id (users D)) then Inl ForeignKeyViolation
            else
              (let row = \<lparr>s_id = next_id (map s_id (stores D)), s_name = n, s_email = e,
                          s_address = address, s_owner_id = owner\<rparr>
               in Inr (row, D\<lparr>stores := stores D @ [row]\<rparr>))
        | _ \<Rightarrow> Inl NotNullViolation))))))"

text \<open>
  \<^verbatim>\<open>INSERT INTO ratings (user_id, store_id, rating) VALUES ($1, $2, $3)
  ON CONFLICT (user_id, store_id) DO UPDATE SET rating = $3 RETURNING id\<close>.
  The row is checked (\<^verbatim>\<open>NOT NULL\<close>, \<^verbatim>\<open>CHECK (rating >= 1 AND rating <= 5)\<close>); a row of
  the table with the same \<^verbatim>\<open>(user_id, store_id)\<close> gets the new rating and keeps its id;
  with no such row a new one is stored, if the user and the store it names exist.
\<close>

definition same_pair :: "int \<Rightarrow> int \<Rightarrow> rating_row \<Rightarrow> bool" where
  "same_pair uid sid r = (r_user_id r = uid \<and> r_store_id r = sid)"

definition upsert_rating ::
  "db \<Rightarrow> int option \<Rightarrow> int option \<Rightarrow> int option \<Rightarrow> pg_error + (int \<times> db)" where
  "upsert_rating D user_id store_id rating =
     (case (user_id, store_id, rating) of
        (Some uid, Some sid, Some v) \<Rightarrow>
          if v < 1 \<or> v > 5 then Inl CheckViolation
          else
            (case filter (same_pair uid sid) (ratings D) of
               old # _ \<Rightarrow>
                 Inr (r_id old,
                   D\<lparr>ratings := map (\<lambda>r. if same_pair uid sid r then r\<lparr>r_rating := v\<rparr> else r)
                     (ratings D)\<rparr>)
             | [] \<Rightarrow>
                 if uid \<notin> set (map u_id (users D)) \<or> sid \<notin> set (map s_id (stores D))
                   then Inl ForeignKeyViolation
                 else
                   (let row = \<lparr>r_id = next_id (map r_id (ratings D)), r_user_id = uid,
                               r_store_id = sid, r_rating = v\<rparr>
                    in Inr (r_id row, D\<lparr>ratings := ratings D @ [row]\<rparr>)))
      | _ \<Rightarrow> Inl NotNullViolation)"

text \<open>\<^verbatim>\<open>UPDATE users SET password = $1 WHERE id = $2\<close>\<close>

definition update_password :: "db \<Rightarrow> text_param \<Rightarrow> pg_error + int \<Rightarrow> pg_error + db" where
  "update_password D hashed_param id_param =
     and_then hashed_param (\<lambda>hashed.
     and_then id_param (\<lambda>uid.
     and_then (varchar 255 hashed) (\<lambda>h.
       (case h of
          None \<Rightarrow> Inl NotNullViolation
        | Some p \<Rightarrow>
            Inr (D\<lparr>users := map (\<lambda>u. if u_id u = uid then u\<lparr>u_password := p\<rparr> else u) (users D)\<rparr>)))))"

text \<open>\<^verbatim>\<open>SELECT ... FROM users WHERE email = $1\<close>: no row for NULL.\<close>

definition users_by_email :: "db \<Rightarrow> text_param \<Rightarrow> pg_error + user_row list" where
  "users_by_email D email_param =
     and_then email_param (\<lambda>email.
       Inr (case email of None \<Rightarrow> [] | Some e \<Rightarrow> filter (\<lambda>u. u_email u = e) (users D)))"

section \<open>Requests, responses and the authentication middleware\<close>

text \<open>
  A request carries its \<^verbatim>\<open>Authorization\<close> header (\<open>None\<close> when it has none), its body as
  a function from the field names to their values (\<open>JUndefined\<close> for a field the body
  does not have) and, for the password route, the \<^verbatim>\<open>:userId\<close> of its path.
\<close>

record request =
  authorization :: "string option"
  rbody :: "string \<Rightarrow> jsval"
  param_userId :: string

text \<open>
  A response body is what \<^verbatim>\<open>res.json\<close> sends: an object as the list of its fields, or an
  array of objects; \<^verbatim>\<open>res.send\<close> sends a text.
\<close>

datatype body = Obj "(string \<times> jsval) list" | Arr "(string \<times> jsval) list list" | Text string

record response =
  status :: nat
  content :: body

definition reply :: "nat \<Rightarrow> body \<Rightarrow> response" where
  "reply code b = \<lparr>status = code, content = b\<rparr>"

definition msg :: "message \<Rightarrow> body" where
  "msg m = Obj [(''message'', JStr m)]"

text \<open>\<^verbatim>\<open>JSON.stringify\<close> leaves out a property whose value is \<^verbatim>\<open>undefined\<close>.\<close>

definition json :: "(string \<times> jsval) list \<Rightarrow> body" where
  "json fs = Obj (filter (\<lambda>kv. snd kv \<noteq> JUndefined) fs)"

text \<open>The names of the fields of a response body, of every object of an array.\<close>

fun field_names :: "body \<Rightarrow> string set" where
  "field_names (Obj fs) = set (map fst fs)"
| "field_names (Arr rows) = set (concat (map (map fst) rows))"
| "field_names (Text t) = {}"

text \<open>\<^verbatim>\<open>s.split(' ')\<close>\<close>

fun split_space :: "string \<Rightarrow> string list" where
  "split_space [] = [[]]"
| "split_space (c # cs) =
     (if c = CHR 0x20 then [] # split_space cs
      else (case split_space cs of [] \<Rightarrow> [[c]] | w # ws \<Rightarrow> (c # w) # ws))"

text \<open>
  \<^verbatim>\<open>authHeader && authHeader.split(' ')[1]\<close>, with \<open>None\<close> for a result that is
  \<^verbatim>\<open>undefined\<close> (no header, or no second piece); an empty header gives the empty string.
\<close>

definition bearer_token :: "string option \<Rightarrow> string option" where
  "bearer_token authHeader =
     (case authHeader of
        None \<Rightarrow> None
      | Some h \<Rightarrow>
          if h = [] then Some []
          else (case split_space h of _ # t # _ \<Rightarrow> Some t | _ \<Rightarrow> None))"

text \<open>
  A handler takes the database and returns its response and the database it leaves.
  \<open>authenticateToken\<close> answers itself or hands the decoded user to the rest of the
  route (\<^verbatim>\<open>req.user = user; next()\<close>).
\<close>

type_synonym handler = "db \<Rightarrow> response \<times> db"

definition authenticateToken :: "env \<Rightarrow> request \<Rightarrow> (payload \<Rightarrow> handler) \<Rightarrow> handler" where
  "authenticateToken E req next D =
     (case bearer_token (authorization req) of
        None \<Rightarrow> (reply 401 (msg ''Access token required''), D)
      | Some token \<Rightarrow>
          if token = [] then (reply 401 (msg ''Access token required''), D)
          else
            (case jwt_verify E token of
               None \<Rightarrow> (reply 403 (msg ''Invalid or expired token''), D)
             | Some user \<Rightarrow> next user D))"

definition requireAdmin :: "payload \<Rightarrow> handler \<Rightarrow> handler" where
  "requireAdmin user next D =
     (if p_role user \<noteq> ''admin'' then (reply 403 (msg ''Admin access required''), D)
      else next D)"

text \<open>\<^verbatim>\<open>a || b || c || d\<close> on the results of the validators: the first message.\<close>

fun first_error :: "message option list \<Rightarrow> message option" where
  "first_error [] = None"
| "first_error (None # es) = first_error es"
| "first_error (Some m # es) = Some m"

section \<open>Routes\<close>

definition text_val :: "string option \<Rightarrow> jsval" where
  "text_val v = (case v of None \<Rightarrow> JNull | Some s \<Rightarrow> JStr s)"

definition num :: "int \<Rightarrow> jsval" where
  "num n = JNum (of_int n)"

definition token_for :: "env \<Rightarrow> int \<Rightarrow> string \<Rightarrow> string \<Rightarrow> jsval" where
  "token_for E uid email role = JStr (jwt_sign E \<lparr>p_id = uid, p_email = email, p_role = role\<rparr>)"

subsection \<open>\<^verbatim>\<open>POST /api/auth/login\<close>\<close>

text \<open>The row of \<^verbatim>\<open>SELECT id, name, email, role, address, password FROM users\<close>.\<close>

definition login_row :: "user_row \<Rightarrow> (string \<times> jsval) list" where
  "login_row u =
     [(''id'', num (u_id u)), (''name'', JStr (u_name u)), (''email'', JStr (u_email u)),
      (''role'', JStr (u_role u)), (''address'', text_val (u_address u)),
      (''password'', JStr (u_password u))]"

text \<open>\<^verbatim>\<open>delete obj.key\<close>\<close>

definition delete_field :: "string \<Rightarrow> (string \<times> jsval) list \<Rightarrow> (string \<times> jsval) list" where
  "delete_field k fs = filter (\<lambda>kv. fst kv \<noteq> k) fs"

text \<open>\<^verbatim>\<open>storeResult.rows[0]?.id\<close> of \<^verbatim>\<open>SELECT id FROM stores WHERE owner_id = $1\<close>\<close>

definition owner_store_id :: "db \<Rightarrow> int \<Rightarrow> jsval" where
  "owner_store_id D uid =
     (case filter (\<lambda>s. s_owner_id s = uid) (stores D) of [] \<Rightarrow> JUndefined | s # _ \<Rightarrow> num (s_id s))"

definition post_auth_login :: "env \<Rightarrow> request \<Rightarrow> handler" where
  "post_auth_login E req D =
     (let email = rbody req ''email''; password = rbody req ''password'' in
      if falsy email \<or> falsy password
        then (reply 400 (msg ''Email and password are required''), D)
      else
        (case users_by_email D (pg_text E email) of
           Inl e \<Rightarrow> (reply 500 (msg ''Server error during login.''), D)
         | Inr [] \<Rightarrow> (reply 401 (msg ''Invalid credentials''), D)
         | Inr (user # _) \<Rightarrow>
             (case bcrypt_compare E password (u_password user) of
                None \<Rightarrow> (reply 500 (msg ''Server error during login.''), D)
              | Some passwordMatch \<Rightarrow>
                  if \<not> passwordMatch then (reply 401 (msg ''Invalid credentials''), D)
                  else
                    (let user1 = delete_field ''password'' (login_row user);
                         user2 = (if u_role user = ''store_owner''
                                  then user1 @ [(''storeId'', owner_store_id D (u_id user))]
                                  else user1);
                         token = token_for E (u_id user) (u_email user) (u_role user)
                     in (reply 200 (json (user2 @ [(''token'', token)])), D)))))"

subsection \<open>\<^verbatim>\<open>POST /api/auth/signup\<close>\<close>

text \<open>The row of \<^verbatim>\<open>RETURNING id, name, email, role, address\<close>.\<close>

definition signup_row :: "user_row \<Rightarrow> (string \<times> jsval) list" where
  "signup_row u =
     [(''id'', num (u_id u)), (''name'', JStr (u_name u)), (''email'', JStr (u_email u)),
      (''role'', JStr (u_role u)), (''address'', text_val (u_address u))]"

definition post_auth_signup :: "env \<Rightarrow> request \<Rightarrow> handler" where
  "post_auth_signup E req D =
     (let name = rbody req ''name''; email = rbody req ''email'';
          address = rbody req ''address''; password = rbody req ''password'' in
      case first_error [validate_name name, validate_email E email,
                        validate_address address, validate_password E password] of
        Some m \<Rightarrow> (reply 400 (msg m), D)
      | None \<Rightarrow>
          (case users_by_email D (pg_text E email) of
             Inl e \<Rightarrow> (reply 500 (msg ''Server error during signup.''), D)
           | Inr existing \<Rightarrow>
               if existing \<noteq> [] then (reply 400 (msg ''Email already exists''), D)
               else
                 (case bcrypt_hash E password of
                    None \<Rightarrow> (reply 500 (msg ''Server error during signup.''), D)
                  | Some hashedPassword \<Rightarrow>
                      (case insert_user D (pg_text E name) (pg_text E email)
                              (pg_string hashedPassword) (pg_text E address) (pg_string ''user'') of
                         Inl e \<Rightarrow> (reply 500 (msg ''Server error during signup.''), D)
                       | Inr (user, D') \<Rightarrow>
                           (reply 201 (json (signup_row user @
                              [(''token'', token_for E (u_id user) (u_email user) (u_role user))])),
                            D')))))"

subsection \<open>The listings\<close>

text \<open>
  \<^verbatim>\<open>SELECT u.id, u.name, u.email, u.role, u.address, s.id AS store_id FROM users u
  LEFT JOIN stores s ON u.id = s.owner_id ORDER BY u.id\<close>, each row mapped to the object
  the route sends.
\<close>

definition users_listing_row :: "user_row \<Rightarrow> jsval \<Rightarrow> (string \<times> jsval) list" where
  "users_listing_row u store_id =
     [(''id'', num (u_id u)), (''name'', JStr (u_name u)), (''email'', JStr (u_email u)),
      (''role'', JStr (u_role u)), (''address'', text_val (u_address u)),
      (''storeId'', store_id)]"

definition users_left_join_stores :: "db \<Rightarrow> (string \<times> jsval) list list" where
  "users_left_join_stores D =
     concat (map (\<lambda>u.
         (case filter (\<lambda>s. s_owner_id s = u_id u) (stores D) of
            [] \<Rightarrow> [users_listing_row u JNull]
          | ss \<Rightarrow> map (\<lambda>s. users_listing_row u (num (s_id s))) ss))
       (sort_key u_id (users D)))"

definition get_data_users :: "env \<Rightarrow> request \<Rightarrow> handler" where
  "get_data_users E req =
     authenticateToken E req (\<lambda>user D. (reply 200 (Arr (users_left_join_stores D)), D))"

definition store_listing_row :: "store_row \<Rightarrow> (string \<times> jsval) list" where
  "store_listing_row s =
     [(''id'', num (s_id s)), (''name'', JStr (s_name s)), (''email'', JStr (s_email s)),
      (''address'', text_val (s_address s)), (''owner_id'', num (s_owner_id s))]"

definition get_data_stores :: "env \<Rightarrow> request \<Rightarrow> handler" where
  "get_data_stores E req =
     authenticateToken E req (\<lambda>user D.
       (reply 200 (Arr (map store_listing_row (sort_key s_id (stores D)))), D))"

definition ratings_join_users :: "db \<Rightarrow> (string \<times> jsval) list list" where
  "ratings_join_users D =
     concat (map (\<lambda>r.
         map (\<lambda>u. [(''id'', num (r_id r)), (''user_id'', num (r_user_id r)),
                    (''store_id'', num (r_store_id r)), (''rating'', num (r_rating r)),
                    (''user_email'', JStr (u_email u))])
           (filter (\<lambda>u. u_id u = r_user_id r) (users D)))
       (sort_key r_id (ratings D)))"

definition get_data_ratings :: "env \<Rightarrow> request \<Rightarrow> handler" where
  "get_data_ratings E req =
     authenticateToken E req (\<lambda>user D. (reply 200 (Arr (ratings_join_users D)), D))"

subsection \<open>\<^verbatim>\<open>POST /api/admin/users\<close>\<close>

definition post_admin_users :: "env \<Rightarrow> request \<Rightarrow> handler" where
  "post_admin_users E req =
     authenticateToken E req (\<lambda>user. requireAdmin user (\<lambda>D.
       (let name = rbody req ''name''; email = rbody req ''email'';
            address = rbody req ''address''; password = rbody req ''password'';
            role = rbody req ''role'' in
        case first_error [validate_name name, validate_email E email,
                          validate_address address, validate_password E password] of
          Some m \<Rightarrow> (reply 400 (msg m), D)
        | None \<Rightarrow>
            if falsy role \<or> role \<notin> set [JStr ''admin'', JStr ''user'']
              then (reply 400 (msg ''Invalid role. Must be admin or user.''), D)
            else
              (case users_by_email D (pg_text E email) of
                 Inl e \<Rightarrow> (reply 500 (msg ''Server error adding user.''), D)
               | Inr existing \<Rightarrow>
                   if existing \<noteq> [] then (reply 400 (msg ''Email already exists''), D)
                   else
                     (case bcrypt_hash E password of
                        None \<Rightarrow> (reply 500 (msg ''Server error adding user.''), D)
                      | Some hashedPassword \<Rightarrow>
                          (case insert_user D (pg_text E name) (pg_text E email)
                                  (pg_string hashedPassword) (pg_text E address) (pg_text E role) of
                             Inl e \<Rightarrow> (reply 500 (msg ''Server error adding user.''), D)
                           | Inr (u, D') \<Rightarrow>
                               (reply 201 (json [(''message'', JStr ''User added successfully''),
                                                 (''userId'', num (u_id u))]), D')))))))"

subsection \<open>\<^verbatim>\<open>POST /api/admin/stores\<close>\<close>

text \<open>What the \<^verbatim>\<open>catch\<close> of the route receives: an error of the database, with its code,
  or another exception, with none.\<close>

datatype failure = Pg pg_error | Thrown

fun error_code :: "failure \<Rightarrow> string option" where
  "error_code (Pg e) = Some (sqlstate e)"
| "error_code Thrown = None"

text \<open>
  The statements between \<^verbatim>\<open>BEGIN\<close> and \<^verbatim>\<open>COMMIT\<close>: hash the default password, create
  the owner (named \<^verbatim>\<open>`${name} Owner`\<close>, with the store's email and address), create the
  store with the owner's id. The result is the pair \<open>(storeId, ownerId)\<close> and the
  database with both rows.
\<close>

definition store_and_owner ::
  "env \<Rightarrow> jsval \<Rightarrow> jsval \<Rightarrow> jsval \<Rightarrow> db \<Rightarrow> failure + ((int \<times> int) \<times> db)" where
  "store_and_owner E name email address D =
     (case bcrypt_hash E (JStr ''Store@123'') of
        None \<Rightarrow> Inl Thrown
      | Some hashedPassword \<Rightarrow>
          (case insert_user D (pg_string (to_string E name @ '' Owner'')) (pg_text E email)
                  (pg_string hashedPassword) (pg_text E address) (pg_string ''store_owner'') of
             Inl e \<Rightarrow> Inl (Pg e)
           | Inr (owner, D1) \<Rightarrow>
               (case insert_store D1 (pg_text E name) (pg_text E email) (pg_text E address)
                       (u_id owner) of
                  Inl e \<Rightarrow> Inl (Pg e)
                | Inr (store, D2) \<Rightarrow> Inr ((s_id store, u_id owner), D2))))"

text \<open>
  The route: on success \<^verbatim>\<open>COMMIT\<close> keeps the database the statements left; the
  \<^verbatim>\<open>catch\<close> runs \<^verbatim>\<open>ROLLBACK\<close>, which restores the database of \<^verbatim>\<open>BEGIN\<close>, and answers
  400 for the code \<^verbatim>\<open>23505\<close> and 500 otherwise.
\<close>

definition post_admin_stores :: "env \<Rightarrow> request \<Rightarrow> handler" where
  "post_admin_stores E req =
     authenticateToken E req (\<lambda>user. requireAdmin user (\<lambda>D.
       (let name = rbody req ''name''; email = rbody req ''email'';
            address = rbody req ''address'' in
        case first_error [validate_name name, validate_email E email,
                          validate_address address] of
          Some m \<Rightarrow> (reply 400 (msg m), D)
        | None \<Rightarrow>
            (case store_and_owner E name email address D of
               Inr ((storeId, ownerId), D2) \<Rightarrow>
                 (reply 201 (json [(''message'', JStr ''Store and Owner added successfully''),
                                   (''storeId'', num storeId), (''ownerId'', num ownerId)]), D2)
             | Inl error \<Rightarrow>
                 if error_code error = Some ''23505''
                   then (reply 400 (msg ''Email already exists for a user/owner.''), D)
                 else (reply 500 (msg ''Server error adding store/owner.''), D)))))"

subsection \<open>\<^verbatim>\<open>PUT /api/users/:userId/password\<close>\<close>

definition put_users_password :: "env \<Rightarrow> request \<Rightarrow> handler" where
  "put_users_password E req =
     authenticateToken E req (\<lambda>user D.
       (let userId = param_userId req; newPassword = rbody req ''newPassword'' in
        if Some (p_id user) \<noteq> parse_int E userId \<and> p_role user \<noteq> ''admin''
          then (reply 403 (msg ''You can only update your own password''), D)
        else
          (case validate_password E newPassword of
             Some passwordError \<Rightarrow> (reply 400 (msg passwordError), D)
           | None \<Rightarrow>
               (case bcrypt_hash E newPassword of
                  None \<Rightarrow> (reply 500 (msg ''Failed to update password.''), D)
                | Some hashedPassword \<Rightarrow>
                    (case update_password D (pg_string hashedPassword) (pg_int_text E userId) of
                       Inl e \<Rightarrow> (reply 500 (msg ''Failed to update password.''), D)
                     | Inr D' \<Rightarrow>
                         (reply 200 (msg ''Password updated successfully''), D'))))))"

subsection \<open>\<^verbatim>\<open>POST /api/ratings\<close>\<close>

text \<open>The query of the route, from the three values of the body to the id it returns.\<close>

definition rating_query :: "env \<Rightarrow> jsval \<Rightarrow> jsval \<Rightarrow> jsval \<Rightarrow> db \<Rightarrow> pg_error + (int \<times> db)" where
  "rating_query E userId storeId rating D =
     and_then (pg_int E userId) (\<lambda>uid.
     and_then (pg_int E storeId) (\<lambda>sid.
     and_then (pg_int E rating) (\<lambda>v. upsert_rating D uid sid v)))"

definition post_ratings :: "env \<Rightarrow> request \<Rightarrow> handler" where
  "post_ratings E req =
     authenticateToken E req (\<lambda>user D.
       (let userId = rbody req ''userId''; storeId = rbody req ''storeId'';
            rating = rbody req ''rating'' in
        if \<not> strict_eq (num (p_id user)) userId
          then (reply 403 (msg ''You can only submit ratings as yourself''), D)
        else
          (case validate_rating E rating of
             Some ratingError \<Rightarrow> (reply 400 (msg ratingError), D)
           | None \<Rightarrow>
               if falsy storeId then (reply 400 (msg ''Store ID is required''), D)
               else
                 (case rating_query E userId storeId rating D of
                    Inl e \<Rightarrow> (reply 500 (msg ''Failed to submit rating.''), D)
                  | Inr (ratingId, D') \<Rightarrow>
                      (reply 201 (json [(''message'', JStr ''Rating submitted/updated successfully''),
                                        (''ratingId'', num ratingId)]), D')))))"

section \<open>The average rating of the dashboards\<close>

text \<open>
  The dashboards compute a store's average from the ratings of \<^verbatim>\<open>API.getRatings()\<close>:
  \<^verbatim>\<open>getStoreRating\<close> (administrator), \<^verbatim>\<open>getOverallRating\<close> (user) and \<^verbatim>\<open>averageRating\<close>
  (store owner). An item carries the integers of the \<^verbatim>\<open>ratings\<close> table and the rater's
  email.
\<close>

record rating_item =
  i_id :: int
  i_userId :: int
  i_storeId :: int
  i_rating :: int
  i_userEmail :: string

subsection \<open>Numbers\<close>

text \<open>
  A JavaScript number is an IEEE 754 double. The sum of the ratings is a sum of integers,
  exact below \<open>2 ^ 53\<close>; the division rounds the quotient to the nearest double, ties to
  even. A double is held as the rational it denotes. \<open>floor_log2 a b\<close> is the binary
  exponent of \<open>a / b\<close> for positive \<open>a\<close> and \<open>b\<close>; the quotient is scaled to a
  significand of 53 bits and rounded there (the quotients met here are far from the
  ends of the exponent range, which the model does not limit).
\<close>

definition floor_log2 :: "int \<Rightarrow> int \<Rightarrow> int" where
  "floor_log2 a b =
     (let d = bitlen a - bitlen b
      in if b * 2 ^ nat d \<le> a * 2 ^ nat (- d) then d else d - 1)"

definition round_half_even :: "int \<Rightarrow> int \<Rightarrow> int" where
  "round_half_even a b =
     (let q = a div b; r = a mod b
      in if 2 * r < b then q else if b < 2 * r then q + 1 else if even q then q else q + 1)"

definition double_div_pos :: "int \<Rightarrow> int \<Rightarrow> rat" where
  "double_div_pos a b =
     (let k = 52 - floor_log2 a b;
          m = round_half_even (a * 2 ^ nat k) (b * 2 ^ nat (- k))
      in of_int m * 2 ^ nat (- k) / 2 ^ nat k)"

text \<open>\<^verbatim>\<open>a / b\<close> for an integer \<open>a\<close> and a positive integer \<open>b\<close>.\<close>

definition double_div :: "int \<Rightarrow> int \<Rightarrow> rat" where
  "double_div a b =
     (if a = 0 then 0 else if a < 0 then - double_div_pos (- a) b else double_div_pos a b)"

text \<open>The decimal digits of a natural number.\<close>

fun digits :: "nat \<Rightarrow> string" where
  "digits n = (if n < 10 then [''0123456789'' ! n] else digits (n div 10) @ [''0123456789'' ! (n mod 10)])"

declare digits.simps [simp del]

text \<open>
  \<^verbatim>\<open>x.toFixed(1)\<close>: the integer \<open>n\<close> with \<open>n / 10\<close> nearest to \<open>\<bar>x\<bar>\<close>, the larger of two
  that are equally near, written with one digit after the point and the sign of \<open>x\<close>.
  From \<open>10 ^ 21\<close> on the method returns \<^verbatim>\<open>String(x)\<close>.
\<close>

definition nearest_tenths :: "rat \<Rightarrow> nat" where
  "nearest_tenths x = nat \<lfloor>10 * x + 1 / 2\<rfloor>"

definition tenths_text :: "nat \<Rightarrow> string" where
  "tenths_text n = digits (n div 10) @ ''.'' @ digits (n mod 10)"

definition toFixed1 :: "env \<Rightarrow> rat \<Rightarrow> string" where
  "toFixed1 E x =
     (if 10 ^ 21 \<le> \<bar>x\<bar> then num_to_str E x
      else (if x < 0 then ''-'' else []) @ tenths_text (nearest_tenths \<bar>x\<bar>))"

subsection \<open>The three averages\<close>

text \<open>\<^verbatim>\<open>storeRatings.reduce((sum, r) => sum + r.rating, 0)\<close>\<close>

definition rating_sum :: "rating_item list \<Rightarrow> int" where
  "rating_sum storeRatings = fold (\<lambda>r sum. sum + i_rating r) storeRatings 0"

definition getStoreRating :: "env \<Rightarrow> rating_item list \<Rightarrow> int \<Rightarrow> string" where
  "getStoreRating E all_ratings storeId =
     (let storeRatings = filter (\<lambda>r. i_storeId r = storeId) all_ratings
      in if length storeRatings = 0 then ''0.0''
         else toFixed1 E (double_div (rating_sum storeRatings) (int (length storeRatings))))"

definition getOverallRating :: "env \<Rightarrow> rating_item list \<Rightarrow> int \<Rightarrow> string" where
  "getOverallRating E all_ratings storeId =
     (let storeRatings = filter (\<lambda>r. i_storeId r = storeId) all_ratings
      in if length storeRatings = 0 then ''0.0''
         else toFixed1 E (double_div (rating_sum storeRatings) (int (length storeRatings))))"

definition averageRating :: "env \<Rightarrow> rating_item list \<Rightarrow> string" where
  "averageRating E storeRatings =
     (if length storeRatings > 0
      then toFixed1 E (double_div (rating_sum storeRatings) (int (length storeRatings)))
      else ''0.0'')"

text \<open>
  The arithmetic mean of a non-empty list of integers, to state what the averages
  approximate, and a list of ratings of one store with the given values.
\<close>

definition mean :: "int list \<Rightarrow> rat" where
  "mean vs = of_int (sum_list vs) / of_nat (length vs)"

definition ratings_with :: "int \<Rightarrow> int list \<Rightarrow> rating_item list" where
  "ratings_with storeId vs =
     map (\<lambda>v. \<lparr>i_id = 0, i_userId = 0, i_storeId = storeId, i_rating = v, i_userEmail = []\<rparr>) vs"

section \<open>The routing table and sequences of requests\<close>

text \<open>The routes the server registers behind \<open>authenticateToken\<close>.\<close>

datatype route =
  GetDataUsers | GetDataStores | GetDataRatings
  | PostAdminUsers | PostAdminStores | PutUsersPassword | PostRatings

fun protected_route :: "env \<Rightarrow> route \<Rightarrow> request \<Rightarrow> handler" where
  "protected_route E GetDataUsers = get_data_users E"
| "protected_route E GetDataStores = get_data_stores E"
| "protected_route E GetDataRatings = get_data_ratings E"
| "protected_route E PostAdminUsers = post_admin_users E"
| "protected_route E PostAdminStores = post_admin_stores E"
| "protected_route E PutUsersPassword = put_users_password E"
| "protected_route E PostRatings = post_ratings E"

text \<open>A body with the given fields, and \<^verbatim>\<open>undefined\<close> for every other name.\<close>

definition body_of :: "(string \<times> jsval) list \<Rightarrow> string \<Rightarrow> jsval" where
  "body_of fs k = (case map_of fs k of None \<Rightarrow> JUndefined | Some v \<Rightarrow> v)"

text \<open>
  The request of \<^verbatim>\<open>API.submitRating(userId, storeId, rating)\<close>: the three numbers as the
  JSON body, under the caller's \<^verbatim>\<open>Authorization\<close> header.
\<close>

definition rating_request :: "string option \<Rightarrow> int \<Rightarrow> int \<Rightarrow> int \<Rightarrow> request" where
  "rating_request auth userId storeId rating =
     \<lparr>authorization = auth,
      rbody = body_of [(''userId'', num userId), (''storeId'', num storeId), (''rating'', num rating)],
      param_userId = []\<rparr>"

text \<open>The database after a sequence of requests to \<^verbatim>\<open>POST /api/ratings\<close>, served in order.\<close>

fun submit_ratings :: "env \<Rightarrow> request list \<Rightarrow> db \<Rightarrow> db" where
  "submit_ratings E [] D = D"
| "submit_ratings E (req # reqs) D = submit_ratings E reqs (snd (post_ratings E req D))"

text \<open>The rows of the ratings table for a user and a store.\<close>

definition ratings_of :: "db \<Rightarrow> int \<Rightarrow> int \<Rightarrow> rating_row list" where
  "ratings_of D uid sid = filter (same_pair uid sid) (ratings D)"

text \<open>\<^verbatim>\<open>UNIQUE(user_id, store_id)\<close>: what the schema keeps true of the ratings table.\<close>

definition unique_ratings :: "db \<Rightarrow> bool" where
  "unique_ratings D = distinct (map (\<lambda>r. (r_user_id r, r_store_id r)) (ratings D))"

text \<open>\<^verbatim>\<open>String(n)\<close> for an integer \<open>n\<close>: its decimal digits, with a minus sign below zero.\<close>

definition decimal_text :: "int \<Rightarrow> string" where
  "decimal_text n = (if n < 0 then ''-'' @ digits (nat (- n)) else digits (nat n))"

section \<open>An example installation\<close>

text \<open>
  An environment and a database to run the model on: the first three accounts and the
  first store of \<^verbatim>\<open>db/seedData.js\<close>, with Jane's rating of the store; tokens and hashes
  are stand-ins that show what they were made from, \<^verbatim>\<open>bcrypt.hash\<close> and
  \<^verbatim>\<open>bcrypt.compare\<close> throw for data that is not a string, as the package does, and the
  conversions are given on the few values the examples convert.
\<close>

definition example_env :: env where
  "example_env =
     \<lparr>jwt_verify = (\<lambda>t.
        if t = ''admin.jwt'' then Some \<lparr>p_id = 1, p_email = ''admin@app.com'', p_role = ''admin''\<rparr>
        else if t = ''jane.jwt'' then Some \<lparr>p_id = 2, p_email = ''jane@user.com'', p_role = ''user''\<rparr>
        else None),
      jwt_sign = (\<lambda>p. p_email p @ ''.jwt''),
      bcrypt_hash = (\<lambda>v. case v of JStr s \<Rightarrow> Some (''$2b$10$'' @ s) | _ \<Rightarrow> None),
      bcrypt_compare = (\<lambda>v h. case v of JStr s \<Rightarrow> Some (h = ''$2b$10$'' @ s) | _ \<Rightarrow> None),
      str_to_num = (\<lambda>s. if s = ''4'' then Some 4 else None),
      num_to_str = (\<lambda>q. if q = 4 then ''4'' else ''3.5''),
      parse_int = (\<lambda>s. if s = ''2'' then Some 2 else None),
      int4in = (\<lambda>s. if s = ''2'' then Some 2 else None)\<rparr>"

definition example_db :: db where
  "example_db =
     \<lparr>users =
        [\<lparr>u_id = 1, u_name = ''Admin User Administrator'', u_email = ''admin@app.com'',
          u_password = ''$2b$10$Admin@123'', u_address = Some ''123 System Lane, Admin City'',
          u_role = ''admin''\<rparr>,
         \<lparr>u_id = 2, u_name = ''Jane Doe Normal User Account'', u_email = ''jane@user.com'',
          u_password = ''$2b$10$User@123'', u_address = Some ''456 Normal Street, User City'',
          u_role = ''user''\<rparr>,
         \<lparr>u_id = 3, u_name = ''MegaMart Owner Account Manager'', u_email = ''megamart@owner.com'',
          u_password = ''$2b$10$Store@123'', u_address = Some ''700 Industrial Avenue, Store City'',
          u_role = ''store_owner''\<rparr>],
      stores =
        [\<lparr>s_id = 1, s_name = ''MegaMart Superstore Chain'', s_email = ''megamart@store.com'',
          s_address = Some ''700 Industrial Avenue, Store City'', s_owner_id = 3\<rparr>],
      ratings = [\<lparr>r_id = 1, r_user_id = 2, r_store_id = 1, r_rating = 5\<rparr>]\<rparr>"

definition example_request :: "string \<Rightarrow> (string \<times> jsval) list \<Rightarrow> request" where
  "example_request token fs =
     \<lparr>authorization = Some (''Bearer '' @ token), rbody = body_of fs, param_userId = ''2''\<rparr>"

section \<open>The model at work\<close>

text \<open>
  The regular expression of the emails, as a property of the string: it is a non-empty
  local part, an \<^verbatim>\<open>@\<close>, and a domain made of two non-empty parts around a dot, all three
  parts free of white space and \<^verbatim>\<open>@\<close>.
\<close>

lemma email_char_dot: "email_char CHR ''.''"
  by (simp add: email_char_def space_char_def)

lemma email_char_at: "\<not> email_char CHR ''@''"
  by (simp add: email_char_def)

lemma email_regex_iff:
  "email_regex s =
     (\<exists>a b c. s = a @ ''@'' @ b @ ''.'' @ c \<and> a \<noteq> [] \<and> b \<noteq> [] \<and> c \<noteq> [] \<and>
        list_all email_char a \<and> list_all email_char b \<and> list_all email_char c)"
proof
  assume "email_regex s"
  then obtain d where a: "takeWhile email_char s \<noteq> []"
    and d: "dropWhile email_char s = CHR ''@'' # d" "list_all email_char d"
      "CHR ''.'' \<in> set (butlast (tl d))"
    by (auto simp add: email_regex_def split: list.splits)
  from d(3) obtain p q where pq: "butlast (tl d) = p @ CHR ''.'' # q"
    by (auto dest: split_list)
  then have "tl d \<noteq> []" by auto
  then have tl: "tl d = p @ CHR ''.'' # q @ [last (tl d)]"
    using pq by (metis append_butlast_last_id append.assoc append_Cons)
  from \<open>tl d \<noteq> []\<close> have "d \<noteq> []" by auto
  then have dd: "d = (hd d # p) @ ''.'' @ (q @ [last (tl d)])"
    using tl by (cases d) simp_all
  have s: "s = takeWhile email_char s @ ''@'' @ (hd d # p) @ ''.'' @ (q @ [last (tl d)])"
    using d(1) dd by (metis takeWhile_dropWhile_id append_Cons append_Nil)
  have "list_all email_char (takeWhile email_char s)"
    by (simp add: list_all_iff) (meson set_takeWhileD)
  moreover have "list_all email_char (hd d # p)" "list_all email_char (q @ [last (tl d)])"
    using d(2) by (subst (asm) dd, simp)+
  ultimately show "\<exists>a b c. s = a @ ''@'' @ b @ ''.'' @ c \<and> a \<noteq> [] \<and> b \<noteq> [] \<and> c \<noteq> [] \<and>
        list_all email_char a \<and> list_all email_char b \<and> list_all email_char c"
    using a s by blast
next
  assume "\<exists>a b c. s = a @ ''@'' @ b @ ''.'' @ c \<and> a \<noteq> [] \<and> b \<noteq> [] \<and> c \<noteq> [] \<and>
        list_all email_char a \<and> list_all email_char b \<and> list_all email_char c"
  then obtain a b c where s: "s = a @ ''@'' @ b @ ''.'' @ c"
    and ne: "a \<noteq> []" "b \<noteq> []" "c \<noteq> []"
    and ok: "list_all email_char a" "list_all email_char b" "list_all email_char c"
    by blast
  have tw: "takeWhile email_char s = a"
    unfolding s using ok(1) email_char_at by (simp add: list_all_iff takeWhile_append2)
  have dw: "dropWhile email_char s = CHR ''@'' # (b @ CHR ''.'' # c)"
    unfolding s using ok(1) email_char_at by (simp add: list_all_iff dropWhile_append2)
  have "butlast (tl (b @ CHR ''.'' # c)) = tl b @ CHR ''.'' # butlast c"
    using ne(2,3) by (cases b) (simp_all add: butlast_append)
  then show "email_regex s"
    using tw dw ne(1) ok email_char_dot by (simp add: email_regex_def)
qed

text \<open>
  Requests that succeed on the example installation: the login of a store owner, the
  creation of a store with its owner, a first rating and a second rating of the same
  store by the same user, and a signup.
\<close>

lemmas route_defs = post_auth_login_def post_auth_signup_def post_admin_users_def post_admin_stores_def
  post_ratings_def put_users_password_def authenticateToken_def requireAdmin_def
  example_request_def bearer_token_def example_env_def example_db_def body_of_def
  users_by_email_def pg_text_def pg_string_def pg_int_text_def login_row_def delete_field_def
  owner_store_id_def
  token_for_def json_def num_def text_val_def signup_row_def
  validate_name_def validate_email_def validate_address_def validate_password_def validate_rating_def
  email_regex_def email_char_def space_char_def upper_char_def special_char_def
  length_lt_def length_gt_def length_eq_def store_and_owner_def insert_user_def insert_store_def
  varchar_def and_then_def check_name_def check_address_def next_id_def
  rating_query_def upsert_rating_def same_pair_def strict_eq_def int4_range_def update_password_def
  Let_def

lemma example_login:
  "post_auth_login example_env
     (example_request [] [(''email'', JStr ''megamart@owner.com''), (''password'', JStr ''Store@123'')])
     example_db
   = (reply 200 (Obj [(''id'', JNum 3), (''name'', JStr ''MegaMart Owner Account Manager''),
        (''email'', JStr ''megamart@owner.com''), (''role'', JStr ''store_owner''),
        (''address'', JStr ''700 Industrial Avenue, Store City''), (''storeId'', JNum 1),
        (''token'', JStr ''megamart@owner.com.jwt'')]), example_db)"
  by (simp add: route_defs)

lemma example_store:
  "post_admin_stores example_env
     (example_request ''admin.jwt''
        [(''name'', JStr ''QuickStop Deli and Convenience Store''),
         (''email'', JStr ''quickstop@store.com''),
         (''address'', JStr ''888 City Center Boulevard, Downtown'')])
     example_db
   = (reply 201 (Obj [(''message'', JStr ''Store and Owner added successfully''),
        (''storeId'', JNum 2), (''ownerId'', JNum 4)]),
      example_db
        \<lparr>users := users example_db @
           [\<lparr>u_id = 4, u_name = ''QuickStop Deli and Convenience Store Owner'',
             u_email = ''quickstop@store.com'', u_password = ''$2b$10$Store@123'',
             u_address = Some ''888 City Center Boulevard, Downtown'', u_role = ''store_owner''\<rparr>],
         stores := stores example_db @
           [\<lparr>s_id = 2, s_name = ''QuickStop Deli and Convenience Store'',
             s_email = ''quickstop@store.com'',
             s_address = Some ''888 City Center Boulevard, Downtown'', s_owner_id = 4\<rparr>]\<rparr>)"
  by (simp add: route_defs)

lemma example_first_rating:
  "post_ratings example_env
     (example_request ''admin.jwt'' [(''userId'', num 1), (''storeId'', num 1), (''rating'', num 4)])
     example_db
   = (reply 201 (Obj [(''message'', JStr ''Rating submitted/updated successfully''),
        (''ratingId'', JNum 2)]),
      example_db\<lparr>ratings := ratings example_db @
        [\<lparr>r_id = 2, r_user_id = 1, r_store_id = 1, r_rating = 4\<rparr>]\<rparr>)"
  by (simp add: route_defs)

lemma example_second_rating:
  "post_ratings example_env
     (example_request ''jane.jwt'' [(''userId'', num 2), (''storeId'', num 1), (''rating'', num 3)])
     example_db
   = (reply 201 (Obj [(''message'', JStr ''Rating submitted/updated successfully''),
        (''ratingId'', JNum 1)]),
      example_db\<lparr>ratings := [\<lparr>r_id = 1, r_user_id = 2, r_store_id = 1, r_rating = 3\<rparr>]\<rparr>)"
  by (simp add: route_defs)

lemma example_signup:
  "post_auth_signup example_env
     (example_request [] [(''name'', JStr ''Alice Smith Regular User Testing''),
        (''email'', JStr ''alice@test.com''), (''address'', JStr ''101 Pine Street, Residential Area''),
        (''password'', JStr ''User@123'')])
     example_db
   = (reply 201 (Obj [(''id'', JNum 4), (''name'', JStr ''Alice Smith Regular User Testing''),
        (''email'', JStr ''alice@test.com''), (''role'', JStr ''user''),
        (''address'', JStr ''101 Pine Street, Residential Area''),
        (''token'', JStr ''alice@test.com.jwt'')]),
      example_db\<lparr>users := users example_db @
        [\<lparr>u_id = 4, u_name = ''Alice Smith Regular User Testing'', u_email = ''alice@test.com'',
          u_password = ''$2b$10$User@123'', u_address = Some ''101 Pine Street, Residential Area'',
          u_role = ''user''\<rparr>]\<rparr>)"
  by (simp add: route_defs)

section \<open>Password validation\<close>

text \<open>
  C8. Password validation accepts exactly the strings of 8 to 16 characters that contain
  at least one uppercase letter and at least one character from \<^verbatim>\<open>!@#$%^&*()\<close>;
  \<^verbatim>\<open>short1!\<close> (7 characters) and \<^verbatim>\<open>alllowercase1!\<close> (no uppercase letter) are rejected and
  \<^verbatim>\<open>Valid@123\<close> is accepted.
\<close>

theorem validate_password_accepts_exactly:
  "((validate_password E (JStr s) = None) =
      (8 \<le> length s \<and> length s \<le> 16 \<and>
       (\<exists>c \<in> set s. upper_char c) \<and> (\<exists>c \<in> set s. special_char c))) \<and>
   validate_password E (JStr ''short1!'') \<noteq> None \<and>
   validate_password E (JStr ''alllowercase1!'') \<noteq> None \<and>
   validate_password E (JStr ''Valid@123'') = None"
  by (auto simp add: validate_password_def length_lt_def length_gt_def list_ex_iff
      upper_char_def special_char_def)

section \<open>Admin-only routes\<close>

text \<open>
  C5. A caller whose token verifies and whose role is not \<^verbatim>\<open>admin\<close> gets 403 from the
  user-creation and the store-creation routes, whatever the body of the request: the
  role check answers before the body is read, and the database is left as it was.
\<close>

theorem admin_routes_need_admin:
  assumes "bearer_token (authorization req) = Some token" and "token \<noteq> []"
    and "jwt_verify E token = Some user" and "p_role user \<noteq> ''admin''"
  shows "post_admin_users E req D = (reply 403 (msg ''Admin access required''), D) \<and>
         post_admin_stores E req D = (reply 403 (msg ''Admin access required''), D)"
  using assms
  by (simp add: post_admin_users_def post_admin_stores_def authenticateToken_def requireAdmin_def)

theorem admin_routes_need_admin_witness:
  "post_admin_users example_env
     (example_request ''jane.jwt'' [(''name'', JStr ''Jane Doe Normal User Account'')]) example_db
     = (reply 403 (msg ''Admin access required''), example_db) \<and>
   post_admin_stores example_env
     (example_request ''jane.jwt'' [(''name'', JStr ''Jane Doe Normal User Account'')]) example_db
     = (reply 403 (msg ''Admin access required''), example_db)"
proof -
  let ?req = "example_request ''jane.jwt'' [(''name'', JStr ''Jane Doe Normal User Account'')]"
  have 1: "bearer_token (authorization ?req) = Some ''jane.jwt''"
    by (simp add: example_request_def bearer_token_def)
  have 2: "''jane.jwt'' \<noteq> []" by simp
  have 3: "jwt_verify example_env ''jane.jwt''
             = Some \<lparr>p_id = 2, p_email = ''jane@user.com'', p_role = ''user''\<rparr>"
    by (simp add: example_env_def)
  have 4: "p_role \<lparr>p_id = 2, p_email = ''jane@user.com'', p_role = ''user''\<rparr> \<noteq> ''admin''"
    by simp
  show ?thesis by (rule admin_routes_need_admin [OF 1 2 3 4])
qed

section \<open>Missing and invalid tokens, wrong roles and identities\<close>

text \<open>
  C3, as the code has it. On every route behind \<open>authenticateToken\<close>: a request with no
  bearer token is answered 401, \<^verbatim>\<open>Access token required\<close>; a request whose token fails
  \<^verbatim>\<open>jwt.verify\<close> (invalid or expired) is answered 403, \<^verbatim>\<open>Invalid or expired token\<close>, not
  401; and with a token that verifies, a role other than \<^verbatim>\<open>admin\<close> on the two admin
  routes, a body \<^verbatim>\<open>userId\<close> other than the caller's id on the rating route, and a path
  \<^verbatim>\<open>userId\<close> other than the caller's id on the password route for a caller who is not an
  administrator are answered 403. None of these requests changes the database.
\<close>

theorem protected_routes_reject:
  "(bearer_token (authorization req) \<in> {None, Some []} \<longrightarrow>
      protected_route E r req D = (reply 401 (msg ''Access token required''), D)) \<and>
   (\<forall>t. bearer_token (authorization req) = Some t \<and> t \<noteq> [] \<and> jwt_verify E t = None \<longrightarrow>
      protected_route E r req D = (reply 403 (msg ''Invalid or expired token''), D)) \<and>
   (\<forall>t user. bearer_token (authorization req) = Some t \<and> t \<noteq> [] \<and> jwt_verify E t = Some user \<longrightarrow>
      (r \<in> {PostAdminUsers, PostAdminStores} \<and> p_role user \<noteq> ''admin'' \<longrightarrow>
         protected_route E r req D = (reply 403 (msg ''Admin access required''), D)) \<and>
      (r = PostRatings \<and> rbody req ''userId'' \<noteq> num (p_id user) \<longrightarrow>
         protected_route E r req D = (reply 403 (msg ''You can only submit ratings as yourself''), D)) \<and>
      (r = PutUsersPassword \<and> parse_int E (param_userId req) \<noteq> Some (p_id user)
         \<and> p_role user \<noteq> ''admin'' \<longrightarrow>
         protected_route E r req D = (reply 403 (msg ''You can only update your own password''), D)))"
  by (cases r)
    (auto simp add: get_data_users_def get_data_stores_def get_data_ratings_def
      post_admin_users_def post_admin_stores_def put_users_password_def post_ratings_def
      authenticateToken_def requireAdmin_def strict_eq_def Let_def)

text \<open>
  The five cases on the example installation: no header; a token that does not verify;
  Jane, a normal user, on an admin route; Jane rating as user 1; Jane changing the
  password of user 7.
\<close>

theorem protected_routes_reject_witness:
  "protected_route example_env GetDataStores
      \<lparr>authorization = None, rbody = body_of [], param_userId = []\<rparr> example_db
     = (reply 401 (msg ''Access token required''), example_db) \<and>
   protected_route example_env GetDataUsers (example_request ''expired.jwt'' []) example_db
     = (reply 403 (msg ''Invalid or expired token''), example_db) \<and>
   protected_route example_env PostAdminStores (example_request ''jane.jwt'' []) example_db
     = (reply 403 (msg ''Admin access required''), example_db) \<and>
   protected_route example_env PostRatings
      (example_request ''jane.jwt'' [(''userId'', num 1), (''storeId'', num 1), (''rating'', num 5)])
      example_db
     = (reply 403 (msg ''You can only submit ratings as yourself''), example_db) \<and>
   protected_route example_env PutUsersPassword
      ((example_request ''jane.jwt'' [(''newPassword'', JStr ''Valid@123'')])\<lparr>param_userId := ''7''\<rparr>)
      example_db
     = (reply 403 (msg ''You can only update your own password''), example_db)"
proof -
  let ?jane = "\<lparr>p_id = 2, p_email = ''jane@user.com'', p_role = ''user''\<rparr>"
  have jane: "jwt_verify example_env ''jane.jwt'' = Some ?jane"
    and expired: "jwt_verify example_env ''expired.jwt'' = None"
    and seven: "parse_int example_env ''7'' \<noteq> Some 2"
    by (simp_all add: example_env_def)
  have token: "bearer_token (authorization (example_request ''jane.jwt'' fs)) = Some ''jane.jwt''"
    "bearer_token (authorization (example_request ''expired.jwt'' fs)) = Some ''expired.jwt''"
    "param_userId (example_request t fs) = ''2''"
    "rbody (example_request t fs) = body_of fs" for t fs
    by (simp_all add: example_request_def bearer_token_def)
  have 1: "protected_route example_env GetDataStores
      \<lparr>authorization = None, rbody = body_of [], param_userId = []\<rparr> example_db
     = (reply 401 (msg ''Access token required''), example_db)"
    using protected_routes_reject [of "\<lparr>authorization = None, rbody = body_of [], param_userId = []\<rparr>"
        example_env GetDataStores example_db]
    by (simp add: bearer_token_def)
  have 2: "protected_route example_env GetDataUsers (example_request ''expired.jwt'' []) example_db
     = (reply 403 (msg ''Invalid or expired token''), example_db)"
    using protected_routes_reject [of "example_request ''expired.jwt'' []"
        example_env GetDataUsers example_db] token expired
    by simp
  have 3: "protected_route example_env PostAdminStores (example_request ''jane.jwt'' []) example_db
     = (reply 403 (msg ''Admin access required''), example_db)"
    using protected_routes_reject [of "example_request ''jane.jwt'' []"
        example_env PostAdminStores example_db] token jane
    by simp
  have 4: "protected_route example_env PostRatings
      (example_request ''jane.jwt'' [(''userId'', num 1), (''storeId'', num 1), (''rating'', num 5)])
      example_db
     = (reply 403 (msg ''You can only submit ratings as yourself''), example_db)"
    using protected_routes_reject [of "example_request ''jane.jwt''
          [(''userId'', num 1), (''storeId'', num 1), (''rating'', num 5)]"
        example_env PostRatings example_db] token jane
    by (simp add: body_of_def num_def)
  have 5: "protected_route example_env PutUsersPassword
      ((example_request ''jane.jwt'' [(''newPassword'', JStr ''Valid@123'')])\<lparr>param_userId := ''7''\<rparr>)
      example_db
     = (reply 403 (msg ''You can only update your own password''), example_db)"
    using protected_routes_reject [of "(example_request ''jane.jwt''
          [(''newPassword'', JStr ''Valid@123'')])\<lparr>param_userId := ''7''\<rparr>"
        example_env PutUsersPassword example_db] token jane seven
    by simp
  show ?thesis
    by (intro conjI 1 2 3 4 5)
qed

text \<open>
  Where the code leaves the sentence of the specification (401 for a token that is
  invalid or expired): a token that does not verify gets 403 from the user listing.
\<close>

theorem invalid_token_gets_403:
  "status (fst (protected_route example_env GetDataUsers
      (example_request ''expired.jwt'' []) example_db)) = 403 \<and>
   status (fst (protected_route example_env GetDataUsers
      (example_request ''expired.jwt'' []) example_db)) \<noteq> 401"
  by (simp add: get_data_users_def authenticateToken_def example_request_def bearer_token_def
      example_env_def reply_def)

section \<open>The self-scope check of the rating route\<close>

text \<open>
  C10. The rating route compares the caller's numeric id with the \<^verbatim>\<open>userId\<close> of the body
  by \<^verbatim>\<open>!==\<close>. For every caller whose token verifies, a body whose \<^verbatim>\<open>userId\<close> is the
  decimal string of the caller's own id is answered 403, \<^verbatim>\<open>You can only submit ratings as
  yourself\<close>; and the route gives that answer exactly when the \<^verbatim>\<open>userId\<close> is anything but
  the number itself.
\<close>

theorem self_scope_is_type_sensitive:
  assumes "bearer_token (authorization req) = Some token" and "token \<noteq> []"
    and "jwt_verify E token = Some user"
  shows "(rbody req ''userId'' = JStr (decimal_text (p_id user)) \<longrightarrow>
           post_ratings E req D = (reply 403 (msg ''You can only submit ratings as yourself''), D)) \<and>
         ((post_ratings E req D = (reply 403 (msg ''You can only submit ratings as yourself''), D))
            = (rbody req ''userId'' \<noteq> num (p_id user)))"
  using assms
  by (auto simp add: post_ratings_def authenticateToken_def strict_eq_def Let_def num_def
      reply_def msg_def json_def split: option.splits sum.splits)

text \<open>Jane, whose id is 2, rating store 1 with \<^verbatim>\<open>userId: "2"\<close>.\<close>

theorem self_scope_is_type_sensitive_witness:
  "post_ratings example_env
     (example_request ''jane.jwt'' [(''userId'', JStr ''2''), (''storeId'', num 1), (''rating'', num 4)])
     example_db
   = (reply 403 (msg ''You can only submit ratings as yourself''), example_db)"
proof -
  let ?req = "example_request ''jane.jwt''
     [(''userId'', JStr ''2''), (''storeId'', num 1), (''rating'', num 4)]"
  let ?jane = "\<lparr>p_id = 2, p_email = ''jane@user.com'', p_role = ''user''\<rparr>"
  have 1: "bearer_token (authorization ?req) = Some ''jane.jwt''"
    by (simp add: example_request_def bearer_token_def)
  have 2: "''jane.jwt'' \<noteq> []" by simp
  have 3: "jwt_verify example_env ''jane.jwt'' = Some ?jane"
    by (simp add: example_env_def)
  have 4: "rbody ?req ''userId'' = JStr (decimal_text (p_id ?jane))"
    by (simp add: example_request_def body_of_def decimal_text_def digits.simps)
  from self_scope_is_type_sensitive [OF 1 2 3, of example_db] 4 show ?thesis
    by blast
qed

section \<open>Failed logins\<close>

text \<open>
  Where \<^verbatim>\<open>bcrypt.compare\<close> returns false, the route does what it means to do: a login
  that fails because no user has the email and a login that fails because the password
  does not match the user's hash get the same response, 401 with \<^verbatim>\<open>Invalid credentials\<close>,
  and leave the database as it was.
\<close>

lemma login_failure_is_generic:
  assumes "\<not> falsy (rbody req1 ''email'')" and "\<not> falsy (rbody req1 ''password'')"
    and "users_by_email D1 (pg_text E (rbody req1 ''email'')) = Inr []"
    and "\<not> falsy (rbody req2 ''email'')" and "\<not> falsy (rbody req2 ''password'')"
    and "users_by_email D2 (pg_text E (rbody req2 ''email'')) = Inr (u # rest)"
    and "bcrypt_compare E (rbody req2 ''password'') (u_password u) = Some False"
  shows "post_auth_login E req1 D1 = (reply 401 (msg ''Invalid credentials''), D1) \<and>
         post_auth_login E req2 D2 = (reply 401 (msg ''Invalid credentials''), D2) \<and>
         fst (post_auth_login E req1 D1) = fst (post_auth_login E req2 D2)"
  using assms by (simp add: post_auth_login_def Let_def)

text \<open>
  Jane's email with a wrong password, against a database with no accounts and against
  the example database, where the account exists.
\<close>

lemma login_failure_is_generic_example:
  "post_auth_login example_env
     (example_request [] [(''email'', JStr ''jane@user.com''), (''password'', JStr ''Wrong@123'')])
     \<lparr>users = [], stores = [], ratings = []\<rparr>
   = (reply 401 (msg ''Invalid credentials''), \<lparr>users = [], stores = [], ratings = []\<rparr>) \<and>
   post_auth_login example_env
     (example_request [] [(''email'', JStr ''jane@user.com''), (''password'', JStr ''Wrong@123'')])
     example_db
   = (reply 401 (msg ''Invalid credentials''), example_db)"
proof -
  let ?req = "example_request [] [(''email'', JStr ''jane@user.com''), (''password'', JStr ''Wrong@123'')]"
  let ?jane = "\<lparr>u_id = 2, u_name = ''Jane Doe Normal User Account'', u_email = ''jane@user.com'',
          u_password = ''$2b$10$User@123'', u_address = Some ''456 Normal Street, User City'',
          u_role = ''user''\<rparr>"
  have body: "rbody ?req ''email'' = JStr ''jane@user.com''"
    "rbody ?req ''password'' = JStr ''Wrong@123''"
    by (simp_all add: example_request_def body_of_def)
  have 1: "\<not> falsy (rbody ?req ''email'')" and 2: "\<not> falsy (rbody ?req ''password'')"
    by (simp_all add: body)
  have 3: "users_by_email \<lparr>users = [], stores = [], ratings = []\<rparr>
             (pg_text example_env (rbody ?req ''email'')) = Inr []"
    by (simp add: body users_by_email_def pg_text_def pg_string_def and_then_def)
  have 4: "users_by_email example_db (pg_text example_env (rbody ?req ''email'')) = Inr (?jane # [])"
    by (simp add: body users_by_email_def pg_text_def pg_string_def and_then_def example_db_def)
  have 5: "bcrypt_compare example_env (rbody ?req ''password'') (u_password ?jane) = Some False"
    by (simp add: body example_env_def)
  from login_failure_is_generic [OF 1 2 3 1 2 4 5] show ?thesis
    by blast
qed

text \<open>
  Where \<^verbatim>\<open>bcrypt.compare\<close> throws, the two logins differ: with no user of the email the
  route has answered 401 before it compares; with a user of the email the \<^verbatim>\<open>catch\<close>
  answers 500.
\<close>

lemma login_with_throwing_compare:
  assumes "\<not> falsy (rbody req ''email'')" and "\<not> falsy (rbody req ''password'')"
    and "users_by_email D1 (pg_text E (rbody req ''email'')) = Inr []"
    and "users_by_email D2 (pg_text E (rbody req ''email'')) = Inr (u # rest)"
    and "bcrypt_compare E (rbody req ''password'') (u_password u) = None"
  shows "post_auth_login E req D1 = (reply 401 (msg ''Invalid credentials''), D1) \<and>
         post_auth_login E req D2 = (reply 500 (msg ''Server error during login.''), D2)"
  using assms by (simp add: post_auth_login_def Let_def)

text \<open>
  C7, where the code differs. The login route accepts any truthy password, and
  \<^verbatim>\<open>bcrypt.compare\<close> throws for a password that is not a string. With the password
  \<^verbatim>\<open>1\<close> (a number) the request for Jane's email, which a user has, is answered 500,
  \<^verbatim>\<open>Server error during login.\<close>, and the request for an email that no user has is
  answered 401, \<^verbatim>\<open>Invalid credentials\<close>: the response tells whether the email exists.
\<close>

theorem non_string_password_reveals_email:
  "post_auth_login example_env
     (example_request [] [(''email'', JStr ''jane@user.com''), (''password'', JNum 1)])
     example_db
   = (reply 500 (msg ''Server error during login.''), example_db) \<and>
   post_auth_login example_env
     (example_request [] [(''email'', JStr ''nobody@user.com''), (''password'', JNum 1)])
     example_db
   = (reply 401 (msg ''Invalid credentials''), example_db) \<and>
   fst (post_auth_login example_env
     (example_request [] [(''email'', JStr ''jane@user.com''), (''password'', JNum 1)])
     example_db)
   \<noteq> fst (post_auth_login example_env
     (example_request [] [(''email'', JStr ''nobody@user.com''), (''password'', JNum 1)])
     example_db)"
  by (simp add: post_auth_login_def example_request_def body_of_def users_by_email_def
      pg_text_def pg_string_def and_then_def example_db_def example_env_def reply_def msg_def)

text \<open>
  An email that holds the character U+0000 is refused by the database when the query
  binds it, and the login is answered 500 whether or not the rest of the email is known.
\<close>

lemma login_with_nul_in_email:
  assumes "rbody req ''email'' = JStr e" and "CHR 0x00 \<in> set e"
    and "\<not> falsy (rbody req ''password'')"
  shows "post_auth_login E req D = (reply 500 (msg ''Server error during login.''), D)"
  using assms
  by (auto simp add: post_auth_login_def Let_def users_by_email_def pg_text_def pg_string_def
      and_then_def)

section \<open>The password column in the responses\<close>

lemma login_sends_no_password:
  "''password'' \<notin> field_names (content (fst (post_auth_login E req D)))"
  by (auto simp add: post_auth_login_def Let_def reply_def msg_def json_def delete_field_def
      login_row_def split: list.splits option.splits sum.splits)

lemma signup_sends_no_password:
  "''password'' \<notin> field_names (content (fst (post_auth_signup E req D)))"
  by (auto simp add: post_auth_signup_def Let_def reply_def msg_def json_def signup_row_def
      split: list.splits option.splits sum.splits)

lemma users_listing_sends_no_password:
  "''password'' \<notin> field_names (content (fst (get_data_users E req D)))"
  by (auto simp add: get_data_users_def authenticateToken_def users_left_join_stores_def
      users_listing_row_def reply_def msg_def split: list.splits option.splits)

text \<open>
  C9. No response of the login route, the signup route or the user listing has a field
  named \<^verbatim>\<open>password\<close>, whatever the request, the environment and the database: the login
  route deletes the field from the row it read, and the other two never select the column.
\<close>

theorem password_field_is_never_sent:
  "''password'' \<notin> field_names (content (fst (post_auth_login E req D))) \<and>
   ''password'' \<notin> field_names (content (fst (post_auth_signup E req D))) \<and>
   ''password'' \<notin> field_names (content (fst (get_data_users E req D)))"
  by (intro conjI login_sends_no_password signup_sends_no_password
      users_listing_sends_no_password)

section \<open>Ratings that are not integers\<close>

text \<open>
  C4, where the code differs. \<open>validate_rating\<close> accepts the number 3.5: it checks the
  range only. The rating route then sends the query, and the \<^verbatim>\<open>INTEGER\<close> column refuses the
  value: the response is 500, not 400. Here Jane rates store 1 with 3.5.
\<close>

theorem fractional_rating_passes_validation:
  "validate_rating E (JNum (7 / 2)) = None \<and>
   post_ratings example_env
     (example_request ''jane.jwt'' [(''userId'', num 2), (''storeId'', num 1), (''rating'', JNum (7 / 2))])
     example_db
   = (reply 500 (msg ''Failed to submit rating.''), example_db)"
  by (simp add: validate_rating_def post_ratings_def authenticateToken_def example_request_def
      bearer_token_def example_env_def strict_eq_def body_of_def num_def rating_query_def
      and_then_def int4_range_def)

section \<open>Submitting a rating again\<close>

text \<open>One valid submission: the route runs the upsert with the three integers.\<close>

lemma body_of_rating_request [simp]:
  "rbody (rating_request auth uid sid v) ''userId'' = num uid"
  "rbody (rating_request auth uid sid v) ''storeId'' = num sid"
  "rbody (rating_request auth uid sid v) ''rating'' = num v"
  "authorization (rating_request auth uid sid v) = auth"
  by (simp_all add: rating_request_def body_of_def)

lemma pg_int_num: "int4_range n \<Longrightarrow> pg_int E (num n) = Inr (Some n)"
  by (simp add: num_def)

lemma post_ratings_valid:
  assumes "bearer_token auth = Some token" and "token \<noteq> []"
    and "jwt_verify E token = Some user"
    and "int4_range (p_id user)" and "int4_range sid" and "sid \<noteq> 0"
    and "1 \<le> v" and "v \<le> 5"
  shows "snd (post_ratings E (rating_request auth (p_id user) sid v) D) =
           (case upsert_rating D (Some (p_id user)) (Some sid) (Some v) of
              Inl e \<Rightarrow> D | Inr (rid, D') \<Rightarrow> D')"
proof -
  have "int4_range v"
    using assms(7,8) by (simp add: int4_range_def)
  moreover have "validate_rating E (num v) = None"
    using assms(7,8) by (simp add: validate_rating_def num_def)
  moreover have "\<not> falsy (num sid)"
    using assms(6) by (simp add: num_def)
  ultimately show ?thesis
    using assms
    by (simp add: post_ratings_def authenticateToken_def strict_eq_def rating_query_def
        and_then_def pg_int_num split: sum.splits)
qed

lemma filter_key_short:
  "distinct (map k xs) \<Longrightarrow> length (filter (\<lambda>x. k x = a) xs) \<le> 1"
  by (induction xs) (auto simp add: filter_empty_conv image_iff)

lemma same_pair_key: "same_pair uid sid = (\<lambda>r. (r_user_id r, r_store_id r) = (uid, sid))"
  by (auto simp add: same_pair_def)

lemma ratings_of_short:
  assumes "unique_ratings D" and "ratings_of D uid sid = r # rs"
  shows "rs = []"
proof -
  have "length (ratings_of D uid sid) \<le> 1"
    using assms(1) unfolding unique_ratings_def ratings_of_def same_pair_key
    by (rule filter_key_short)
  with assms(2) show ?thesis by simp
qed

lemma same_pair_update [simp]: "same_pair uid sid (r\<lparr>r_rating := v\<rparr>) = same_pair uid sid r"
  by (simp add: same_pair_def)

lemma upsert_insert:
  assumes "ratings_of D uid sid = []" and "unique_ratings D"
    and "uid \<in> set (map u_id (users D))" and "sid \<in> set (map s_id (stores D))"
    and "1 \<le> v" and "v \<le> 5"
  shows "\<exists>row. upsert_rating D (Some uid) (Some sid) (Some v)
             = Inr (r_id row, D\<lparr>ratings := ratings D @ [row]\<rparr>) \<and>
           same_pair uid sid row \<and> r_rating row = v"
  using assms
  by (intro exI [of _ "\<lparr>r_id = next_id (map r_id (ratings D)), r_user_id = uid,
        r_store_id = sid, r_rating = v\<rparr>"])
    (simp add: upsert_rating_def ratings_of_def Let_def same_pair_def)

lemma upsert_update:
  assumes "ratings_of D uid sid = old # rs" and "1 \<le> v" and "v \<le> 5"
  shows "upsert_rating D (Some uid) (Some sid) (Some v)
           = Inr (r_id old,
               D\<lparr>ratings := map (\<lambda>r. if same_pair uid sid r then r\<lparr>r_rating := v\<rparr> else r)
                 (ratings D)\<rparr>)"
  using assms by (simp add: upsert_rating_def ratings_of_def)

lemma filter_map_update:
  "filter (same_pair uid sid) (map (\<lambda>r. if same_pair uid sid r then r\<lparr>r_rating := v\<rparr> else r) xs)
     = map (\<lambda>r. r\<lparr>r_rating := v\<rparr>) (filter (same_pair uid sid) xs)"
  by (induction xs) auto

lemma keys_map_update:
  "map (\<lambda>r. (r_user_id r, r_store_id r))
      (map (\<lambda>r. if same_pair uid sid r then r\<lparr>r_rating := v\<rparr> else r) xs)
     = map (\<lambda>r. (r_user_id r, r_store_id r)) xs"
  by (induction xs) auto

lemma upsert_rating_result:
  assumes "unique_ratings D" and "uid \<in> set (map u_id (users D))"
    and "sid \<in> set (map s_id (stores D))" and "1 \<le> v" and "v \<le> 5"
  shows "\<exists>rid D'. upsert_rating D (Some uid) (Some sid) (Some v) = Inr (rid, D') \<and>
           users D' = users D \<and> stores D' = stores D \<and> unique_ratings D' \<and>
           (\<exists>r. ratings_of D' uid sid = [r] \<and> r_rating r = v) \<and>
           length (ratings D') =
             (if ratings_of D uid sid = [] then length (ratings D) + 1 else length (ratings D))"
proof (cases "ratings_of D uid sid")
  case Nil
  from upsert_insert [OF Nil assms] obtain row where
    row: "upsert_rating D (Some uid) (Some sid) (Some v)
            = Inr (r_id row, D\<lparr>ratings := ratings D @ [row]\<rparr>)"
      "same_pair uid sid row" "r_rating row = v"
    by blast
  have fresh: "(uid, sid) \<notin> set (map (\<lambda>r. (r_user_id r, r_store_id r)) (ratings D))"
    using Nil by (auto simp add: ratings_of_def filter_empty_conv same_pair_def)
  have "unique_ratings (D\<lparr>ratings := ratings D @ [row]\<rparr>)"
    using assms(1) fresh row(2) by (simp add: unique_ratings_def same_pair_def)
  moreover have "ratings_of (D\<lparr>ratings := ratings D @ [row]\<rparr>) uid sid = [row]"
    using Nil row(2) by (simp add: ratings_of_def)
  ultimately show ?thesis
    using row Nil by simp
next
  case (Cons old rs)
  have rs: "rs = []"
    using assms(1) Cons by (rule ratings_of_short)
  let ?D' = "D\<lparr>ratings := map (\<lambda>r. if same_pair uid sid r then r\<lparr>r_rating := v\<rparr> else r)
                 (ratings D)\<rparr>"
  have up: "upsert_rating D (Some uid) (Some sid) (Some v) = Inr (r_id old, ?D')"
    using Cons assms(4,5) by (rule upsert_update)
  have "unique_ratings ?D'"
    using assms(1) by (simp add: unique_ratings_def keys_map_update del: map_map)
  moreover have "ratings_of ?D' uid sid = [old\<lparr>r_rating := v\<rparr>]"
    using Cons rs by (simp add: ratings_of_def filter_map_update)
  ultimately show ?thesis
    using up Cons by simp
qed

lemma submit_step:
  assumes "bearer_token auth = Some token" and "token \<noteq> []"
    and "jwt_verify E token = Some user"
    and "int4_range (p_id user)" and "int4_range sid" and "sid \<noteq> 0"
    and "1 \<le> v" and "v \<le> 5"
    and "unique_ratings D" and "p_id user \<in> set (map u_id (users D))"
    and "sid \<in> set (map s_id (stores D))"
  shows "\<exists>D'. snd (post_ratings E (rating_request auth (p_id user) sid v) D) = D' \<and>
           users D' = users D \<and> stores D' = stores D \<and> unique_ratings D' \<and>
           (\<exists>r. ratings_of D' (p_id user) sid = [r] \<and> r_rating r = v) \<and>
           length (ratings D') =
             (if ratings_of D (p_id user) sid = [] then length (ratings D) + 1
              else length (ratings D))"
proof -
  from upsert_rating_result [OF assms(9,10,11,7,8)] obtain rid D' where
    "upsert_rating D (Some (p_id user)) (Some sid) (Some v) = Inr (rid, D')"
    and rest: "users D' = users D" "stores D' = stores D" "unique_ratings D'"
      "\<exists>r. ratings_of D' (p_id user) sid = [r] \<and> r_rating r = v"
      "length (ratings D') =
         (if ratings_of D (p_id user) sid = [] then length (ratings D) + 1 else length (ratings D))"
    by blast
  then have "snd (post_ratings E (rating_request auth (p_id user) sid v) D) = D'"
    using post_ratings_valid [OF assms(1-8), of D] by simp
  with rest show ?thesis by simp
qed

lemma submit_ratings_nonempty:
  assumes "bearer_token auth = Some token" and "token \<noteq> []"
    and "jwt_verify E token = Some user"
    and "int4_range (p_id user)" and "int4_range sid" and "sid \<noteq> 0"
  shows "\<forall>x \<in> set (v # vs). 1 \<le> x \<and> x \<le> 5 \<Longrightarrow> unique_ratings D \<Longrightarrow>
         p_id user \<in> set (map u_id (users D)) \<Longrightarrow> sid \<in> set (map s_id (stores D)) \<Longrightarrow>
         (\<exists>r. ratings_of (submit_ratings E (map (rating_request auth (p_id user) sid) (v # vs)) D)
                 (p_id user) sid = [r] \<and> r_rating r = last (v # vs)) \<and>
         length (ratings (submit_ratings E (map (rating_request auth (p_id user) sid) (v # vs)) D)) =
           (if ratings_of D (p_id user) sid = [] then length (ratings D) + 1 else length (ratings D))"
proof (induction vs arbitrary: v D)
  case Nil
  from submit_step [OF assms, of v D] Nil show ?case by simp
next
  case (Cons w ws)
  from submit_step [OF assms, of v D] Cons.prems obtain D' where
    D': "snd (post_ratings E (rating_request auth (p_id user) sid v) D) = D'"
      "users D' = users D" "stores D' = stores D" "unique_ratings D'"
      "\<exists>r. ratings_of D' (p_id user) sid = [r] \<and> r_rating r = v"
      "length (ratings D') =
         (if ratings_of D (p_id user) sid = [] then length (ratings D) + 1 else length (ratings D))"
    by auto
  have "(\<exists>r. ratings_of (submit_ratings E (map (rating_request auth (p_id user) sid) (w # ws)) D')
                 (p_id user) sid = [r] \<and> r_rating r = last (w # ws)) \<and>
         length (ratings (submit_ratings E (map (rating_request auth (p_id user) sid) (w # ws)) D')) =
           (if ratings_of D' (p_id user) sid = [] then length (ratings D') + 1 else length (ratings D'))"
    using Cons.prems D'(2,3,4) by (intro Cons.IH) simp_all
  with D' show ?case by auto
qed

text \<open>
  C1. Take a ratings table that satisfies \<^verbatim>\<open>UNIQUE(user_id, store_id)\<close>, a user whose
  token verifies and a store, both in the database, and any non-empty sequence of rating
  submissions by that user for that store with integer values from 1 to 5. After the
  sequence the table has exactly one row for the pair, and its value is the value of the
  last submission. The sequence adds one row to the table when the pair had none (the
  first submission inserts) and no row otherwise (every other submission overwrites).
\<close>

theorem repeated_submissions_leave_one_rating:
  assumes "unique_ratings D"
    and "bearer_token auth = Some token" and "token \<noteq> []"
    and "jwt_verify E token = Some user"
    and "p_id user \<in> set (map u_id (users D))" and "sid \<in> set (map s_id (stores D))"
    and "int4_range (p_id user)" and "int4_range sid" and "sid \<noteq> 0"
    and "vs \<noteq> []" and "\<forall>v \<in> set vs. 1 \<le> v \<and> v \<le> 5"
  shows "(\<exists>r. ratings_of (submit_ratings E (map (rating_request auth (p_id user) sid) vs) D)
                 (p_id user) sid = [r] \<and> r_rating r = last vs) \<and>
         length (ratings (submit_ratings E (map (rating_request auth (p_id user) sid) vs) D)) =
           (if ratings_of D (p_id user) sid = [] then length (ratings D) + 1 else length (ratings D))"
proof -
  from assms(10) obtain v ws where vs: "vs = v # ws"
    by (cases vs) simp_all
  show ?thesis
    unfolding vs
    using assms(11) assms(1) assms(5) assms(6) unfolding vs
    by (rule submit_ratings_nonempty [OF assms(2,3,4,7,8,9)])
qed

text \<open>
  Jane, who rated store 1 with 5, submits 3 and then 4: the example database still has
  one row for her and the store, now with 4, and as many rows as before.
\<close>

theorem repeated_submissions_leave_one_rating_witness:
  "(\<exists>r. ratings_of
           (submit_ratings example_env
              (map (rating_request (Some ''Bearer jane.jwt'') 2 1) [3, 4]) example_db) 2 1 = [r] \<and>
         r_rating r = 4) \<and>
   length (ratings (submit_ratings example_env
              (map (rating_request (Some ''Bearer jane.jwt'') 2 1) [3, 4]) example_db)) = 1"
proof -
  let ?jane = "\<lparr>p_id = 2, p_email = ''jane@user.com'', p_role = ''user''\<rparr>"
  have 1: "unique_ratings example_db"
    by (simp add: unique_ratings_def example_db_def)
  have 2: "bearer_token (Some ''Bearer jane.jwt'') = Some ''jane.jwt''"
    by (simp add: bearer_token_def)
  have 3: "''jane.jwt'' \<noteq> []" by simp
  have 4: "jwt_verify example_env ''jane.jwt'' = Some ?jane"
    by (simp add: example_env_def)
  have 5: "p_id ?jane \<in> set (map u_id (users example_db))"
    and 6: "1 \<in> set (map s_id (stores example_db))"
    by (simp_all add: example_db_def)
  have 7: "int4_range (p_id ?jane)" and 8: "int4_range 1" and 9: "(1 :: int) \<noteq> 0"
    by (simp_all add: int4_range_def)
  have 10: "[3, 4 :: int] \<noteq> []" and 11: "\<forall>v \<in> set [3, 4 :: int]. 1 \<le> v \<and> v \<le> 5"
    by simp_all
  have old: "ratings_of example_db 2 1 \<noteq> []" "length (ratings example_db) = 1"
    by (simp_all add: ratings_of_def example_db_def same_pair_def)
  from repeated_submissions_leave_one_rating [OF 1 2 3 4 5 6 7 8 9 10 11] old
  show ?thesis by simp
qed

section \<open>Creating a store with its owner\<close>

lemma and_then_Inr: "and_then r f = Inr y \<Longrightarrow> \<exists>x. r = Inr x \<and> f x = Inr y"
  by (cases r) (simp_all add: and_then_def)

lemma insert_user_Inr:
  assumes "insert_user D np ep pp ap rp = Inr (row, D')"
  shows "D' = D\<lparr>users := users D @ [row]\<rparr> \<and>
         (\<exists>r. rp = Inr r \<and> varchar 20 r = Inr (Some (u_role row)))"
proof -
  from assms obtain n e p a r n' e' p' r' where
    r: "rp = Inr r" and r': "varchar 20 r = Inr r'"
    and body: "(case (n', e', p', r') of
          (Some n, Some e, Some p, Some r) \<Rightarrow>
            if \<not> check_name n \<or> \<not> check_address a
               \<or> r \<notin> set [''admin'', ''user'', ''store_owner'']
              then Inl CheckViolation
            else if e \<in> set (map u_email (users D)) then Inl UniqueViolation
            else
              (let row = \<lparr>u_id = next_id (map u_id (users D)), u_name = n, u_email = e,
                          u_password = p, u_address = a, u_role = r\<rparr>
               in Inr (row, D\<lparr>users := users D @ [row]\<rparr>))
        | _ \<Rightarrow> Inl NotNullViolation) = Inr (row, D')"
    unfolding insert_user_def by (blast dest!: and_then_Inr)
  from body r r' show ?thesis
    by (auto simp add: Let_def split: option.splits if_splits)
qed

lemma insert_store_Inr:
  assumes "insert_store D np ep ap owner = Inr (row, D')"
  shows "D' = D\<lparr>stores := stores D @ [row]\<rparr> \<and> s_owner_id row = owner"
proof -
  from assms obtain a n' e' where
    "(case (n', e') of
          (Some n, Some e) \<Rightarrow>
            if \<not> check_name n \<or> \<not> check_address a then Inl CheckViolation
            else if e \<in> set (map s_email (stores D)) \<or> owner \<in> set (map s_owner_id (stores D))
              then Inl UniqueViolation
            else if owner \<notin> set (map u_id (users D)) then Inl ForeignKeyViolation
            else
              (let row = \<lparr>s_id = next_id (map s_id (stores D)), s_name = n, s_email = e,
                          s_address = a, s_owner_id = owner\<rparr>
               in Inr (row, D\<lparr>stores := stores D @ [row]\<rparr>))
        | _ \<Rightarrow> Inl NotNullViolation) = Inr (row, D')"
    unfolding insert_store_def by (blast dest!: and_then_Inr)
  then show ?thesis
    by (auto simp add: Let_def split: option.splits if_splits)
qed

lemma store_and_owner_Inr:
  assumes "store_and_owner E name email address D = Inr ((sid, oid), D')"
  shows "\<exists>owner store. D' = D\<lparr>users := users D @ [owner], stores := stores D @ [store]\<rparr> \<and>
           u_role owner = ''store_owner'' \<and> s_owner_id store = u_id owner \<and>
           s_id store = sid \<and> u_id owner = oid"
proof -
  from assms obtain h owner D1 store where
    1: "insert_user D (pg_string (to_string E name @ '' Owner'')) (pg_text E email) (pg_string h)
          (pg_text E address) (pg_string ''store_owner'') = Inr (owner, D1)"
    and 2: "insert_store D1 (pg_text E name) (pg_text E email) (pg_text E address) (u_id owner)
          = Inr (store, D')"
    and 3: "s_id store = sid" "u_id owner = oid"
    by (auto simp add: store_and_owner_def split: option.splits sum.splits)
  from insert_user_Inr [OF 1] have "D1 = D\<lparr>users := users D @ [owner]\<rparr>"
    and "u_role owner = ''store_owner''"
    by (auto simp add: varchar_def pg_string_def)
  moreover from insert_store_Inr [OF 2] have "D' = D1\<lparr>stores := stores D1 @ [store]\<rparr>"
    and "s_owner_id store = u_id owner" by simp_all
  ultimately show ?thesis using 3
    by (intro exI [of _ owner] exI [of _ store]) simp
qed

lemma varchar_short: "length s \<le> n \<Longrightarrow> varchar n (Some s) = Inr (Some s)"
  by (simp add: varchar_def)

text \<open>The insert on parameters that the database has bound.\<close>

lemma insert_user_bound:
  "insert_user D (Inr name) (Inr email) (Inr password) (Inr address) (Inr role) =
     and_then (varchar 60 name) (\<lambda>name'.
     and_then (varchar 255 email) (\<lambda>email'.
     and_then (varchar 255 password) (\<lambda>password'.
     and_then (varchar 20 role) (\<lambda>role'.
       (case (name', email', password', role') of
          (Some n, Some e, Some p, Some r) \<Rightarrow>
            if \<not> check_name n \<or> \<not> check_address address
               \<or> r \<notin> set [''admin'', ''user'', ''store_owner'']
              then Inl CheckViolation
            else if e \<in> set (map u_email (users D)) then Inl UniqueViolation
            else
              (let row = \<lparr>u_id = next_id (map u_id (users D)), u_name = n, u_email = e,
                          u_password = p, u_address = address, u_role = r\<rparr>
               in Inr (row, D\<lparr>users := users D @ [row]\<rparr>))
        | _ \<Rightarrow> Inl NotNullViolation)))))"
  by (simp add: insert_user_def and_then_def)

lemma insert_user_taken:
  assumes "e \<in> set (map u_email (users D))" and "length e \<le> 255"
  shows "\<exists>err. insert_user D name (pg_string e) password address role = Inl err"
proof (cases "\<exists>n p a r. name = Inr n \<and> pg_string e = Inr (Some e) \<and> password = Inr p \<and> address = Inr a \<and> role = Inr r")
  case True
  then obtain n p a r where bound: "name = Inr n" "pg_string e = Inr (Some e)" "password = Inr p"
    "address = Inr a" "role = Inr r"
    by blast
  show ?thesis
    unfolding bound insert_user_bound using assms
    by (cases "varchar 60 n"; cases "varchar 255 p"; cases "varchar 20 r")
      (auto simp add: and_then_def varchar_short split: option.splits)
next
  case False
  then show ?thesis
    by (cases name; cases password; cases address; cases role)
      (auto simp add: insert_user_def and_then_def pg_string_def split: if_splits)
qed

text \<open>
  The store route is all or nothing: either it leaves the database as it was, or it
  answers 201 and the database has one more user, a store owner, and one more store,
  owned by that user.
\<close>

theorem store_creation_is_all_or_nothing:
  "snd (post_admin_stores E req D) = D \<or>
   (status (fst (post_admin_stores E req D)) = 201 \<and>
    (\<exists>owner store. snd (post_admin_stores E req D)
         = D\<lparr>users := users D @ [owner], stores := stores D @ [store]\<rparr> \<and>
       u_role owner = ''store_owner'' \<and> s_owner_id store = u_id owner))"
  by (auto simp add: post_admin_stores_def authenticateToken_def requireAdmin_def Let_def
      reply_def split: option.splits sum.splits dest!: store_and_owner_Inr)

text \<open>
  The second half failing: the email is free among the users and taken among the stores.
  The owner is inserted, the store is refused by the unique index, and the rollback
  removes the owner again.
\<close>

lemma example_store_email_taken:
  "insert_user example_db (pg_string ''MegaMart Express Downtown Owner'')
     (pg_string ''megamart@store.com'') (pg_string ''$2b$10$Store@123'')
     (pg_string ''12 Lakeside Avenue, Store City'') (pg_string ''store_owner'')
     \<noteq> Inl UniqueViolation \<and>
   post_admin_stores example_env
     (example_request ''admin.jwt''
        [(''name'', JStr ''MegaMart Express Downtown''),
         (''email'', JStr ''megamart@store.com''),
         (''address'', JStr ''12 Lakeside Avenue, Store City'')])
     example_db
   = (reply 400 (msg ''Email already exists for a user/owner.''), example_db)"
  by (simp add: route_defs msg_def)

text \<open>
  A request whose email is the email of a user of the database adds no row and is never
  answered 201, whatever else it holds.
\<close>

theorem taken_email_adds_no_rows:
  assumes "rbody req ''email'' = JStr e" and "e \<in> set (map u_email (users D))"
    and "length e \<le> 255"
  shows "snd (post_admin_stores E req D) = D \<and> status (fst (post_admin_stores E req D)) \<noteq> 201"
proof -
  have "\<exists>err. store_and_owner E name (JStr e) address D = Inl err" for name address
  proof (cases "bcrypt_hash E (JStr ''Store@123'')")
    case None
    then show ?thesis by (simp add: store_and_owner_def)
  next
    case (Some h)
    from insert_user_taken [OF assms(2,3)] obtain err where
      "insert_user D (pg_string (to_string E name @ '' Owner'')) (pg_string e) (pg_string h)
         (pg_text E address) (pg_string ''store_owner'') = Inl err"
      by blast
    with Some show ?thesis by (simp add: store_and_owner_def pg_text_def)
  qed
  then obtain err where
    "store_and_owner E (rbody req ''name'') (JStr e) (rbody req ''address'') D = Inl err"
    by blast
  then show ?thesis
    using assms(1)
    by (auto simp add: post_admin_stores_def authenticateToken_def requireAdmin_def Let_def
        reply_def split: option.splits)
qed

text \<open>The administrator's request with Jane's email, on the example database.\<close>

theorem taken_email_adds_no_rows_witness:
  "snd (post_admin_stores example_env
     (example_request ''admin.jwt''
        [(''name'', JStr ''QuickStop Deli and Convenience Store of Lakeside Avenue''),
         (''email'', JStr ''jane@user.com''),
         (''address'', JStr ''12 Lakeside Avenue, Store City'')])
     example_db) = example_db"
proof -
  let ?req = "example_request ''admin.jwt''
        [(''name'', JStr ''QuickStop Deli and Convenience Store of Lakeside Avenue''),
         (''email'', JStr ''jane@user.com''),
         (''address'', JStr ''12 Lakeside Avenue, Store City'')]"
  have 1: "rbody ?req ''email'' = JStr ''jane@user.com''"
    by (simp add: example_request_def body_of_def)
  have 2: "''jane@user.com'' \<in> set (map u_email (users example_db))"
    by (simp add: example_db_def)
  have 3: "length ''jane@user.com'' \<le> 255" by simp
  from taken_email_adds_no_rows [OF 1 2 3, of example_env] show ?thesis
    by blast
qed

text \<open>
  With a name of 20 to 54 characters (so that the owner's name, the name followed by
  \<^verbatim>\<open> Owner\<close>, fits the column), an address of 1 to 400 characters and an email that
  passes validation, none of them holding the character U+0000, the answer to an
  administrator for an email that a user already has is 400,
  \<^verbatim>\<open>Email already exists for a user/owner.\<close>
\<close>

theorem taken_email_is_refused:
  assumes "bearer_token (authorization req) = Some token" and "token \<noteq> []"
    and "jwt_verify E token = Some user" and "p_role user = ''admin''"
    and "rbody req ''name'' = JStr n" and "20 \<le> length n" and "length n \<le> 54"
    and "rbody req ''email'' = JStr e" and "email_regex e" and "length e \<le> 255"
    and "e \<in> set (map u_email (users D))"
    and "rbody req ''address'' = JStr a" and "0 < length a" and "length a \<le> 400"
    and "bcrypt_hash E (JStr ''Store@123'') = Some h" and "length h \<le> 255"
    and "CHR 0x00 \<notin> set (n @ e @ a @ h)"
  shows "post_admin_stores E req D
           = (reply 400 (msg ''Email already exists for a user/owner.''), D)"
proof -
  have valid: "first_error [validate_name (JStr n), validate_email E (JStr e),
                  validate_address (JStr a)] = None"
    using assms(6,7,9,13,14)
    by (auto simp add: validate_name_def validate_email_def validate_address_def length_lt_def
        length_gt_def length_eq_def)
  have owner: "insert_user D (pg_string (n @ '' Owner'')) (pg_string e) (pg_string h) (pg_string a)
      (pg_string ''store_owner'') = Inl UniqueViolation"
    using assms(6,7,10,11,14,16,17)
    by (simp add: insert_user_def pg_string_def varchar_def and_then_def check_name_def
        check_address_def)
  have "store_and_owner E (JStr n) (JStr e) (JStr a) D = Inl (Pg UniqueViolation)"
    using assms(15) owner by (simp add: store_and_owner_def pg_text_def)
  with valid assms(1-5,8,12) show ?thesis
    by (simp add: post_admin_stores_def authenticateToken_def requireAdmin_def)
qed

theorem taken_email_is_refused_witness:
  "post_admin_stores example_env
     (example_request ''admin.jwt''
        [(''name'', JStr ''QuickStop Deli and Convenience Store''),
         (''email'', JStr ''jane@user.com''),
         (''address'', JStr ''12 Lakeside Avenue, Store City'')])
     example_db
   = (reply 400 (msg ''Email already exists for a user/owner.''), example_db)"
proof -
  let ?req = "example_request ''admin.jwt''
        [(''name'', JStr ''QuickStop Deli and Convenience Store''),
         (''email'', JStr ''jane@user.com''),
         (''address'', JStr ''12 Lakeside Avenue, Store City'')]"
  let ?admin = "\<lparr>p_id = 1, p_email = ''admin@app.com'', p_role = ''admin''\<rparr>"
  have 1: "bearer_token (authorization ?req) = Some ''admin.jwt''"
    by (simp add: example_request_def bearer_token_def)
  have 2: "''admin.jwt'' \<noteq> []" by simp
  have 3: "jwt_verify example_env ''admin.jwt'' = Some ?admin"
    and 15: "bcrypt_hash example_env (JStr ''Store@123'') = Some ''$2b$10$Store@123''"
    by (simp_all add: example_env_def)
  have 4: "p_role ?admin = ''admin''" by simp
  have 5: "rbody ?req ''name'' = JStr ''QuickStop Deli and Convenience Store''"
    and 8: "rbody ?req ''email'' = JStr ''jane@user.com''"
    and 12: "rbody ?req ''address'' = JStr ''12 Lakeside Avenue, Store City''"
    by (simp_all add: example_request_def body_of_def)
  have 6: "20 \<le> length ''QuickStop Deli and Convenience Store''"
    and 7: "length ''QuickStop Deli and Convenience Store'' \<le> 54"
    and 10: "length ''jane@user.com'' \<le> 255"
    and 13: "0 < length ''12 Lakeside Avenue, Store City''"
    and 14: "length ''12 Lakeside Avenue, Store City'' \<le> 400"
    and 16: "length ''$2b$10$Store@123'' \<le> 255"
    by simp_all
  have 17: "CHR 0x00 \<notin> set (''QuickStop Deli and Convenience Store'' @ ''jane@user.com'' @
      ''12 Lakeside Avenue, Store City'' @ ''$2b$10$Store@123'')"
    by simp
  have 9: "email_regex ''jane@user.com''"
    by (simp add: email_regex_def email_char_def space_char_def)
  have 11: "''jane@user.com'' \<in> set (map u_email (users example_db))"
    by (simp add: example_db_def)
  show ?thesis
    by (rule taken_email_is_refused [OF 1 2 3 4 5 6 7 8 9 10 11 12 13 14 15 16 17])
qed

text \<open>
  C6, where the code differs. The route validates the store's name to 20 to 60
  characters and names the owner \<^verbatim>\<open>`${name} Owner`\<close>; \<^verbatim>\<open>users.name\<close> is \<^verbatim>\<open>VARCHAR(60)\<close>.
  For a name of 55 characters the owner's name has 61, the insert fails with the code
  22001 before the unique index on the email is met, and the route answers 500 where the
  email is taken, not 400. The rollback holds: the database is unchanged.
\<close>

theorem long_store_name_with_taken_email:
  "validate_name (JStr ''QuickStop Deli and Convenience Store of Lakeside Avenue'') = None \<and>
   ''jane@user.com'' \<in> set (map u_email (users example_db)) \<and>
   post_admin_stores example_env
     (example_request ''admin.jwt''
        [(''name'', JStr ''QuickStop Deli and Convenience Store of Lakeside Avenue''),
         (''email'', JStr ''jane@user.com''),
         (''address'', JStr ''12 Lakeside Avenue, Store City'')])
     example_db
   = (reply 500 (msg ''Server error adding store/owner.''), example_db)"
  by (simp add: post_admin_stores_def authenticateToken_def requireAdmin_def example_request_def
      bearer_token_def example_env_def body_of_def validate_name_def validate_email_def
      validate_address_def email_regex_def email_char_def space_char_def length_lt_def
      length_gt_def length_eq_def store_and_owner_def insert_user_def varchar_def and_then_def
      pg_text_def pg_string_def example_db_def)

section \<open>The average is the mean to one decimal\<close>

text \<open>
  The division rounds to the nearest double: with ratings from 1 to 5 the quotient is
  below 8, its significand is scaled by at least \<open>2 ^ 50\<close>, and the double is within
  \<open>1 / 2 ^ 51\<close> of the exact quotient. \<^verbatim>\<open>toFixed(1)\<close> then takes the nearest tenth of the
  double, which is a nearest tenth of the exact mean as well, because the mean of fewer
  than \<open>2 ^ 46\<close> integers is either halfway between two tenths or further from halfway
  than the rounding of the division can bridge.
\<close>

text \<open>
  \<open>floor_log2 a b\<close> is the binary exponent of \<open>a / b\<close>.
\<close>

lemma scaled_le_iff:
  assumes "0 < a" and "0 < b"
  shows "(b * 2 ^ nat e \<le> a * 2 ^ nat (- e)) = ((2 :: rat) powi e \<le> of_int a / of_int b)"
proof (cases "0 \<le> e")
  case True
  then have "(2 :: rat) powi e = 2 ^ nat e" and "nat (- e) = 0"
    by (simp_all add: power_int_def)
  moreover have "(b * 2 ^ nat e \<le> a) = ((of_int (b * 2 ^ nat e) :: rat) \<le> of_int a)"
    by (simp only: of_int_le_iff)
  ultimately show ?thesis
    using assms by (simp add: field_simps)
next
  case False
  define n where "n = nat (- e)"
  have p: "(2 :: rat) powi e = 1 / 2 ^ n" and z: "nat e = 0"
    using False by (simp_all add: power_int_def n_def field_simps)
  have "(b \<le> a * 2 ^ n) = ((of_int b :: rat) \<le> of_int (a * 2 ^ n))"
    by (simp only: of_int_le_iff)
  also have "\<dots> = ((of_int b :: rat) \<le> of_int a * 2 ^ n)"
    by simp
  also have "\<dots> = ((1 :: rat) / 2 ^ n \<le> of_int a / of_int b)"
    using assms by (simp add: field_simps)
  finally show ?thesis
    unfolding p by (simp add: z n_def)
qed

lemma bitlen_powi:
  assumes "0 < a"
  shows "(2 :: rat) powi (bitlen a - 1) \<le> of_int a" and "(of_int a :: rat) < 2 powi bitlen a"
proof -
  from bitlen_bounds [OF assms] have 1: "2 ^ nat (bitlen a - 1) \<le> a" and 2: "a < 2 ^ nat (bitlen a)"
    by simp_all
  have pos: "1 \<le> bitlen a"
    using assms bitlen_eq_zero_iff [of a] bitlen_nonneg [of a] by linarith
  from 1 have "(of_int (2 ^ nat (bitlen a - 1)) :: rat) \<le> of_int a"
    by (simp only: of_int_le_iff)
  then show "(2 :: rat) powi (bitlen a - 1) \<le> of_int a"
    using pos by (simp add: power_int_def)
  from 2 have "(of_int a :: rat) < of_int (2 ^ nat (bitlen a))"
    by (simp only: of_int_less_iff)
  then show "(of_int a :: rat) < 2 powi bitlen a"
    using pos by (simp add: power_int_def)
qed

lemma floor_log2_correct:
  assumes "0 < a" and "0 < b"
  shows "(2 :: rat) powi floor_log2 a b \<le> of_int a / of_int b"
    and "of_int a / of_int b < (2 :: rat) powi (floor_log2 a b + 1)"
proof -
  define d where "d = bitlen a - bitlen b"
  have a: "(2 :: rat) powi (bitlen a - 1) \<le> of_int a" "(of_int a :: rat) < 2 powi bitlen a"
    using assms(1) by (rule bitlen_powi)+
  have b: "(2 :: rat) powi (bitlen b - 1) \<le> of_int b" "(of_int b :: rat) < 2 powi bitlen b"
    using assms(2) by (rule bitlen_powi)+
  have b0: "(0 :: rat) < of_int b" using assms(2) by simp
  have low: "(2 :: rat) powi (d - 1) \<le> of_int a / of_int b"
  proof -
    have "(2 :: rat) powi (d - 1) * of_int b \<le> 2 powi (d - 1) * 2 powi bitlen b"
      using b(2) by (intro mult_left_mono) simp_all
    also have "\<dots> = 2 powi (bitlen a - 1)"
      by (simp add: d_def power_int_add [symmetric])
    also have "\<dots> \<le> of_int a" by (rule a(1))
    finally show ?thesis using b0 by (simp add: field_simps)
  qed
  have high: "of_int a / of_int b < (2 :: rat) powi (d + 1)"
  proof -
    have "(of_int a :: rat) < 2 powi bitlen a" by (rule a(2))
    also have "\<dots> = 2 powi (d + 1) * 2 powi (bitlen b - 1)"
      by (simp add: d_def power_int_add [symmetric])
    also have "\<dots> \<le> 2 powi (d + 1) * of_int b"
      using b(1) by (intro mult_left_mono) simp_all
    finally show ?thesis using b0 by (simp add: field_simps)
  qed
  have e: "floor_log2 a b = (if (2 :: rat) powi d \<le> of_int a / of_int b then d else d - 1)"
    using scaled_le_iff [OF assms, of d] by (simp add: floor_log2_def d_def Let_def)
  show "(2 :: rat) powi floor_log2 a b \<le> of_int a / of_int b"
    using low by (simp add: e)
  show "of_int a / of_int b < (2 :: rat) powi (floor_log2 a b + 1)"
    using high by (simp add: e)
qed

lemma bitlen_mono: "a \<le> c \<Longrightarrow> bitlen a \<le> bitlen c"
  by (simp add: bitlen_def floorlog_mono)

lemma floor_log2_le_2:
  assumes "0 < a" and "0 < b" and "a < 8 * b"
  shows "floor_log2 a b \<le> 2"
proof -
  have "bitlen a \<le> bitlen (b * 2 ^ 3)"
    using assms(3) by (intro bitlen_mono) simp
  also have "\<dots> = bitlen b + 3"
    using bitlen_pow2 [OF assms(2), of 3] by simp
  finally have d: "bitlen a - bitlen b \<le> 3" by simp
  show ?thesis
  proof (cases "bitlen a - bitlen b = 3")
    case True
    then show ?thesis
      using assms(3) by (simp add: floor_log2_def)
  next
    case False
    with d show ?thesis
      by (simp add: floor_log2_def Let_def)
  qed
qed

lemma round_half_even_error:
  assumes "0 < b"
  shows "\<bar>of_int (round_half_even a b) - (of_int a / of_int b :: rat)\<bar> \<le> 1 / 2"
proof -
  define q r where "q = a div b" and "r = a mod b"
  have a: "a = q * b + r" and r: "0 \<le> r" "r < b"
    using assms by (simp_all add: q_def r_def)
  have quot: "(of_int a / of_int b :: rat) = of_int q + of_int r / of_int b"
    using assms by (simp add: a field_simps)
  have r1: "2 * r < b \<Longrightarrow> (of_int r / of_int b :: rat) < 1 / 2"
    using assms by (simp add: field_simps)
  have r2: "b < 2 * r \<Longrightarrow> 1 / 2 < (of_int r / of_int b :: rat)"
    using assms by (simp add: field_simps)
  have r3: "2 * r = b \<Longrightarrow> (of_int r / of_int b :: rat) = 1 / 2"
    using assms by (auto simp add: field_simps)
  have r0: "0 \<le> (of_int r / of_int b :: rat)" "(of_int r / of_int b :: rat) < 1"
    using assms r by simp_all
  consider "2 * r < b" | "b < 2 * r" | "2 * r = b" by linarith
  then show ?thesis
  proof cases
    case 1
    then have "round_half_even a b = q"
      by (simp add: round_half_even_def q_def r_def)
    with r1 [OF 1] r0 quot show ?thesis by simp
  next
    case 2
    then have "round_half_even a b = q + 1"
      by (simp add: round_half_even_def q_def r_def)
    with r2 [OF 2] r0 quot show ?thesis by simp
  next
    case 3
    then have "round_half_even a b = q \<or> round_half_even a b = q + 1"
      by (simp add: round_half_even_def q_def r_def Let_def)
    with r3 [OF 3] quot show ?thesis by auto
  qed
qed

text \<open>
  The quotient of the model is a double nearest to the exact quotient: a significand of
  53 bits (or \<open>2 ^ 53\<close>, the first significand of the next exponent) times a power of
  two, at most half a unit in the last place away.
\<close>

lemma double_div_pos_rounds:
  assumes "0 < a" and "0 < b"
  shows "\<exists>m k. double_div_pos a b = of_int m * 2 powi (- k) \<and> 2 ^ 52 \<le> m \<and> m \<le> 2 ^ 53 \<and>
           \<bar>of_int m * 2 powi (- k) - (of_int a / of_int b :: rat)\<bar> \<le> 2 powi (- k) / 2"
proof -
  define k where "k = 52 - floor_log2 a b"
  define num den where "num = a * 2 ^ nat k" and "den = b * 2 ^ nat (- k)"
  define m where "m = round_half_even num den"
  define x :: rat where "x = of_int a / of_int b"
  have den: "0 < den" using assms(2) by (simp add: den_def)
  have scaled: "(of_int num / of_int den :: rat) = x * 2 powi k"
    and val: "double_div_pos a b = of_int m * 2 powi (- k)"
  proof -
    show "(of_int num / of_int den :: rat) = x * 2 powi k"
    proof (cases "0 \<le> k")
      case True
      then show ?thesis by (simp add: num_def den_def x_def power_int_def)
    next
      case False
      then show ?thesis by (simp add: num_def den_def x_def power_int_def field_simps)
    qed
    have "double_div_pos a b = of_int m * 2 ^ nat (- k) / 2 ^ nat k"
      by (simp add: double_div_pos_def Let_def k_def m_def num_def den_def)
    also have "\<dots> = of_int m * 2 powi (- k)"
    proof (cases "0 \<le> k")
      case True
      then show ?thesis by (cases "k = 0") (simp_all add: power_int_def field_simps)
    next
      case False
      then show ?thesis by (simp add: power_int_def)
    qed
    finally show "double_div_pos a b = of_int m * 2 powi (- k)" .
  qed
  have err: "\<bar>of_int m - x * 2 powi k\<bar> \<le> 1 / 2"
    using round_half_even_error [OF den, of num] by (simp add: m_def scaled)
  have "(2 :: rat) powi floor_log2 a b \<le> x" and "x < 2 powi (floor_log2 a b + 1)"
    unfolding x_def using assms by (rule floor_log2_correct)+
  then have "(2 :: rat) powi floor_log2 a b * 2 powi k \<le> x * 2 powi k"
    and "x * 2 powi k < 2 powi (floor_log2 a b + 1) * 2 powi k"
    by (simp_all add: mult_right_mono)
  then have range: "(2 :: rat) ^ 52 \<le> x * 2 powi k" "x * 2 powi k < 2 ^ 53"
    by (simp_all add: power_int_add [symmetric] k_def)
  have c52: "(of_int (2 ^ 52 - 1) :: rat) = 2 ^ 52 - 1" and c53: "(of_int (2 ^ 53 + 1) :: rat) = 2 ^ 53 + 1"
    by simp_all
  have "(of_int (2 ^ 52 - 1) :: rat) < of_int m"
    unfolding c52 using err range(1) by linarith
  then have "2 ^ 52 - 1 < m" by (simp only: of_int_less_iff)
  then have lo: "2 ^ 52 \<le> m" by simp
  have "(of_int m :: rat) < of_int (2 ^ 53 + 1)"
    unfolding c53 using err range(2) by linarith
  then have "m < 2 ^ 53 + 1" by (simp only: of_int_less_iff)
  then have hi: "m \<le> 2 ^ 53" by simp
  have "\<bar>of_int m * 2 powi (- k) - x\<bar> = \<bar>of_int m - x * 2 powi k\<bar> * 2 powi (- k)"
  proof -
    have "of_int m * 2 powi (- k) - x = (of_int m - x * 2 powi k) * 2 powi (- k)"
      by (simp add: algebra_simps power_int_add [symmetric])
    then show ?thesis by (simp add: abs_mult)
  qed
  also have "\<dots> \<le> (1 / 2) * 2 powi (- k)"
    using err by (intro mult_right_mono) simp_all
  finally have "\<bar>of_int m * 2 powi (- k) - x\<bar> \<le> 2 powi (- k) / 2" by simp
  with val lo hi show ?thesis
    unfolding x_def by blast
qed

text \<open>
  A mean halfway between two tenths: \<open>81 / 20\<close> is 4.05, the nearest double lies below
  it, and \<^verbatim>\<open>toFixed(1)\<close> gives \<^verbatim>\<open>4.0\<close>; \<open>17 / 4\<close> is the double 4.25 itself, and
  \<^verbatim>\<open>toFixed(1)\<close> takes the larger tenth.
\<close>

lemma halfway_means:
  "double_div 81 20 = 4559894622712627 / 2 ^ 50 \<and> toFixed1 E (double_div 81 20) = ''4.0'' \<and>
   double_div 17 4 = 17 / 4 \<and> toFixed1 E (double_div 17 4) = ''4.3''"
  by code_simp

lemma round_half_even_nonneg: "0 \<le> a \<Longrightarrow> 0 < b \<Longrightarrow> 0 \<le> round_half_even a b"
  by (simp add: round_half_even_def Let_def pos_imp_zdiv_nonneg_iff)

lemma nearest_tenths_error:
  assumes "0 \<le> x"
  shows "\<bar>of_nat (nearest_tenths x) / 10 - x\<bar> \<le> 1 / 20"
proof -
  define y where "y = 10 * x + 1 / 2"
  have "0 \<le> \<lfloor>y\<rfloor>" using assms by (simp add: y_def)
  then have n: "(of_nat (nearest_tenths x) :: rat) = of_int \<lfloor>y\<rfloor>"
    by (simp add: nearest_tenths_def y_def)
  have "of_int \<lfloor>y\<rfloor> \<le> y" "y < of_int \<lfloor>y\<rfloor> + 1"
    by linarith+
  then show ?thesis
    unfolding n y_def by linarith
qed

lemma double_div_pos_error:
  assumes "0 < b" and "b \<le> a" and "a \<le> 5 * b"
  shows "\<bar>double_div_pos a b - of_int a / of_int b\<bar> \<le> 1 / 2 ^ 51"
    and "0 \<le> double_div_pos a b"
proof -
  define k where "k = nat (52 - floor_log2 a b)"
  have "floor_log2 a b \<le> 2"
    using assms by (intro floor_log2_le_2) simp_all
  then have k: "50 \<le> k" and k': "nat (52 - floor_log2 a b) = k"
    and nk: "nat (- (52 - floor_log2 a b)) = 0" "nat (floor_log2 a b - 52) = 0"
    by (simp_all add: k_def)
  define m where "m = round_half_even (a * 2 ^ k) b"
  have val: "double_div_pos a b = of_int m / 2 ^ k"
    by (simp add: double_div_pos_def Let_def k' nk m_def)
  have "\<bar>of_int m - (of_int (a * 2 ^ k) / of_int b :: rat)\<bar> \<le> 1 / 2"
    unfolding m_def using assms(1) by (rule round_half_even_error)
  then have "\<bar>of_int m - (of_int (a * 2 ^ k) / of_int b :: rat)\<bar> / 2 ^ k \<le> (1 / 2) / 2 ^ k"
    by (intro divide_right_mono) simp_all
  moreover have "\<bar>of_int m - (of_int (a * 2 ^ k) / of_int b :: rat)\<bar> / 2 ^ k
      = \<bar>of_int m / 2 ^ k - of_int a / of_int b\<bar>"
  proof -
    have "(of_int m - (of_int (a * 2 ^ k) / of_int b :: rat)) / 2 ^ k
        = of_int m / 2 ^ k - of_int a / of_int b"
      by (simp add: diff_divide_distrib)
    moreover have "\<bar>of_int m - (of_int (a * 2 ^ k) / of_int b :: rat)\<bar> / 2 ^ k
        = \<bar>(of_int m - (of_int (a * 2 ^ k) / of_int b :: rat)) / 2 ^ k\<bar>"
      by simp
    ultimately show ?thesis by (simp only:)
  qed
  moreover have "(1 / 2 :: rat) / 2 ^ k \<le> 1 / 2 ^ 51"
  proof -
    have "(2 :: rat) ^ 51 \<le> 2 ^ Suc k"
      using k by (intro power_increasing) simp_all
    then show ?thesis by (simp add: field_simps)
  qed
  ultimately show "\<bar>double_div_pos a b - of_int a / of_int b\<bar> \<le> 1 / 2 ^ 51"
    unfolding val by linarith
  have "0 \<le> m"
    unfolding m_def using assms by (intro round_half_even_nonneg) simp_all
  then show "0 \<le> double_div_pos a b"
    unfolding val by simp
qed

lemma tenth_of_mean:
  fixes n :: nat and s N :: int and d :: rat
  assumes "0 < N" and "N < 2 ^ 46"
    and "\<bar>d - of_int s / of_int N\<bar> \<le> 1 / 2 ^ 51"
    and "\<bar>of_nat n / 10 - d\<bar> \<le> 1 / 20"
  shows "\<bar>of_nat n / 10 - (of_int s / of_int N :: rat)\<bar> \<le> 1 / 20"
proof -
  define z where "z = 2 * int n * N - 20 * s"
  have N: "(0 :: rat) < of_int N" using assms(1) by simp
  have "\<bar>of_nat n / 10 - (of_int s / of_int N :: rat)\<bar> \<le> 1 / 20 + 1 / 2 ^ 51"
    using assms(3,4) by linarith
  then have "\<bar>of_nat n / 10 - (of_int s / of_int N :: rat)\<bar> * (20 * of_int N)
      \<le> (1 / 20 + 1 / 2 ^ 51) * (20 * of_int N)"
    using N by (intro mult_right_mono) simp_all
  moreover have "\<bar>of_nat n / 10 - (of_int s / of_int N :: rat)\<bar> * (20 * of_int N)
      = \<bar>of_int z\<bar>"
  proof -
    have "\<bar>of_nat n / 10 - (of_int s / of_int N :: rat)\<bar> * (20 * of_int N)
      = \<bar>(of_nat n / 10 - (of_int s / of_int N :: rat)) * (20 * of_int N)\<bar>"
      using N by (simp add: abs_mult)
    also have "(of_nat n / 10 - (of_int s / of_int N :: rat)) * (20 * of_int N) = of_int z"
      using N by (simp add: z_def field_simps)
    finally show ?thesis .
  qed
  moreover have "(1 / 20 + 1 / 2 ^ 51) * (20 * of_int N) < (of_int (N + 1) :: rat)"
  proof -
    have "(of_int N :: rat) < 2 ^ 46"
      using assms(2) by (metis of_int_less_iff of_int_numeral of_int_power)
    then show ?thesis by (simp add: field_simps)
  qed
  ultimately have "(of_int \<bar>z\<bar> :: rat) < of_int (N + 1)"
    by simp
  then have "\<bar>z\<bar> < N + 1"
    by (simp only: of_int_less_iff)
  then have "\<bar>of_int z :: rat\<bar> \<le> of_int N"
    by (metis of_int_abs of_int_le_iff zle_add1_eq_le zless_add1_eq)
  moreover have "\<bar>of_nat n / 10 - (of_int s / of_int N :: rat)\<bar>
      = \<bar>of_int z\<bar> / (20 * of_int N)"
  proof -
    have "(of_nat n / 10 - (of_int s / of_int N :: rat)) = of_int z / (20 * of_int N)"
      using N by (simp add: z_def field_simps)
    then show ?thesis using N by (simp add: abs_mult)
  qed
  ultimately show ?thesis
    using N by (simp add: field_simps)
qed


lemma rating_sum_eq: "rating_sum rs = sum_list (map i_rating rs)"
proof -
  have "fold (\<lambda>r sum. sum + i_rating r) rs a = a + sum_list (map i_rating rs)" for a
    by (induction rs arbitrary: a) simp_all
  then show ?thesis by (simp add: rating_sum_def)
qed

lemma rating_sum_bounds:
  assumes "\<forall>r \<in> set rs. 1 \<le> i_rating r \<and> i_rating r \<le> 5"
  shows "int (length rs) \<le> rating_sum rs \<and> rating_sum rs \<le> 5 * int (length rs)"
  using assms unfolding rating_sum_eq by (induction rs) auto

lemma average_of_ratings:
  assumes "rs \<noteq> []" and "\<forall>r \<in> set rs. 1 \<le> i_rating r \<and> i_rating r \<le> 5"
    and "length rs < 2 ^ 46"
  shows "\<exists>n. toFixed1 E (double_div (rating_sum rs) (int (length rs))) = tenths_text n \<and>
           \<bar>of_nat n / 10 - mean (map i_rating rs)\<bar> \<le> 1 / 20"
proof -
  define s N where "s = rating_sum rs" and "N = int (length rs)"
  have N: "0 < N" "N < 2 ^ 46"
    using assms(1,3) by (simp_all add: N_def)
  have s: "N \<le> s" "s \<le> 5 * N"
    using rating_sum_bounds [OF assms(2)] by (simp_all add: s_def N_def)
  define d where "d = double_div s N"
  have d: "d = double_div_pos s N"
    using N s by (simp add: d_def double_div_def)
  have err: "\<bar>d - of_int s / of_int N\<bar> \<le> 1 / 2 ^ 51" and pos: "0 \<le> d"
    unfolding d using N(1) s by (rule double_div_pos_error)+
  have "(of_int s / of_int N :: rat) \<le> 5"
    using N(1) s(2) by (simp add: field_simps)
  moreover have "(1 / 2 ^ 51 :: rat) \<le> 1" by simp
  ultimately have "d \<le> 6" using err by linarith
  then have "d < 10 ^ 21" by simp
  with pos have fixed: "toFixed1 E d = tenths_text (nearest_tenths d)"
    by (simp add: toFixed1_def)
  have "\<bar>of_nat (nearest_tenths d) / 10 - d\<bar> \<le> 1 / 20"
    using pos by (rule nearest_tenths_error)
  with N err have "\<bar>of_nat (nearest_tenths d) / 10 - (of_int s / of_int N :: rat)\<bar> \<le> 1 / 20"
    by (intro tenth_of_mean)
  moreover have "mean (map i_rating rs) = of_int s / of_int N"
    by (simp add: mean_def s_def N_def rating_sum_eq)
  ultimately show ?thesis
    using fixed unfolding d_def s_def N_def by auto
qed

text \<open>
  C2. For every store, \<open>getStoreRating\<close> (and \<open>getOverallRating\<close> and \<open>averageRating\<close>,
  which compute the same) returns \<^verbatim>\<open>0.0\<close> when the store has no ratings, and otherwise,
  for ratings from 1 to 5 (fewer than \<open>2 ^ 46\<close> of them), the text of a number with one
  decimal that is nearest to the arithmetic mean of the store's ratings: it differs from
  the mean by at most 0.05. Over the ratings 5 and 4 it returns \<^verbatim>\<open>4.5\<close>, over 5, 4 and 3 it
  returns \<^verbatim>\<open>4.0\<close>. The result is always a string, never an error.
\<close>

theorem average_rating_is_rounded_mean:
  "(filter (\<lambda>r. i_storeId r = storeId) all_ratings = [] \<longrightarrow>
      getStoreRating E all_ratings storeId = ''0.0'') \<and>
   (filter (\<lambda>r. i_storeId r = storeId) all_ratings \<noteq> [] \<and>
    (\<forall>r \<in> set (filter (\<lambda>r. i_storeId r = storeId) all_ratings). 1 \<le> i_rating r \<and> i_rating r \<le> 5) \<and>
    length (filter (\<lambda>r. i_storeId r = storeId) all_ratings) < 2 ^ 46 \<longrightarrow>
      (\<exists>n. getStoreRating E all_ratings storeId = tenths_text n \<and>
         \<bar>of_nat n / 10 - mean (map i_rating (filter (\<lambda>r. i_storeId r = storeId) all_ratings))\<bar>
           \<le> 1 / 20)) \<and>
   getStoreRating E (ratings_with storeId [5, 4]) storeId = ''4.5'' \<and>
   getStoreRating E (ratings_with storeId [5, 4, 3]) storeId = ''4.0'' \<and>
   getOverallRating E all_ratings storeId = getStoreRating E all_ratings storeId \<and>
   averageRating E (filter (\<lambda>r. i_storeId r = storeId) all_ratings)
     = getStoreRating E all_ratings storeId"
proof -
  let ?rs = "filter (\<lambda>r. i_storeId r = storeId) all_ratings"
  have 1: "?rs = [] \<longrightarrow> getStoreRating E all_ratings storeId = ''0.0''"
    by (simp add: getStoreRating_def)
  have 2: "?rs \<noteq> [] \<and> (\<forall>r \<in> set ?rs. 1 \<le> i_rating r \<and> i_rating r \<le> 5) \<and> length ?rs < 2 ^ 46 \<longrightarrow>
      (\<exists>n. getStoreRating E all_ratings storeId = tenths_text n \<and>
         \<bar>of_nat n / 10 - mean (map i_rating ?rs)\<bar> \<le> 1 / 20)"
  proof (intro impI, elim conjE)
    assume rs: "?rs \<noteq> []" "\<forall>r \<in> set ?rs. 1 \<le> i_rating r \<and> i_rating r \<le> 5" "length ?rs < 2 ^ 46"
    have "getStoreRating E all_ratings storeId
        = toFixed1 E (double_div (rating_sum ?rs) (int (length ?rs)))"
      using rs(1) by (simp add: getStoreRating_def Let_def)
    with average_of_ratings [OF rs, of E] show "\<exists>n. getStoreRating E all_ratings storeId = tenths_text n \<and>
         \<bar>of_nat n / 10 - mean (map i_rating ?rs)\<bar> \<le> 1 / 20"
      by (simp only:)
  qed
  have 3: "getStoreRating E (ratings_with storeId [5, 4]) storeId = ''4.5''"
    by (simp add: getStoreRating_def ratings_with_def) code_simp
  have 4: "getStoreRating E (ratings_with storeId [5, 4, 3]) storeId = ''4.0''"
    by (simp add: getStoreRating_def ratings_with_def) code_simp
  have 5: "getOverallRating E all_ratings storeId = getStoreRating E all_ratings storeId"
    by (simp add: getStoreRating_def getOverallRating_def)
  have 6: "averageRating E ?rs = getStoreRating E all_ratings storeId"
    by (simp add: getStoreRating_def averageRating_def Let_def)
  show ?thesis
    by (intro conjI 1 2 3 4 5 6)
qed

text \<open>
  Ratings 5 and 4 for store 1 and a rating 3 for store 2: store 3 has no ratings, and the
  average of store 1 is a tenth within 0.05 of the mean of 5 and 4.
\<close>

theorem average_rating_is_rounded_mean_witness:
  "getStoreRating example_env (ratings_with 1 [5, 4] @ ratings_with 2 [3]) 3 = ''0.0'' \<and>
   (\<exists>n. getStoreRating example_env (ratings_with 1 [5, 4] @ ratings_with 2 [3]) 1 = tenths_text n \<and>
      \<bar>of_nat n / 10 - mean [5, 4]\<bar> \<le> 1 / 20)"
proof -
  let ?all = "ratings_with 1 [5, 4] @ ratings_with 2 [3]"
  have none: "filter (\<lambda>r. i_storeId r = 3) ?all = []"
    and two: "filter (\<lambda>r. i_storeId r = 1) ?all = ratings_with 1 [5, 4]"
    by (simp_all add: ratings_with_def)
  have vals: "map i_rating (ratings_with 1 [5, 4]) = [5, 4]"
    "\<forall>r \<in> set (ratings_with 1 [5, 4]). 1 \<le> i_rating r \<and> i_rating r \<le> 5"
    "ratings_with 1 [5, 4] \<noteq> []" "length (ratings_with 1 [5, 4]) < 2 ^ 46"
    by (simp_all add: ratings_with_def)
  have 1: "getStoreRating example_env ?all 3 = ''0.0''"
    using average_rating_is_rounded_mean [of 3 ?all example_env] none by blast
  have 2: "\<exists>n. getStoreRating example_env ?all 1 = tenths_text n \<and>
      \<bar>of_nat n / 10 - mean [5, 4]\<bar> \<le> 1 / 20"
    using average_rating_is_rounded_mean [of 1 ?all example_env] vals unfolding two
    by (simp only: vals)
  show ?thesis
    by (intro conjI 1 2)
qed

end
